theory Spec2Isabelle
  imports Complex_Main "HOL-Library.Word"
begin

text \<open>
  A shallow embedding of \<^verbatim>\<open>src/snowflake-cortex-agent.ts\<close>, the action that sends a
  prompt to a Cortex agent: the input normalization (\<^verbatim>\<open>resolveAgentCoordinates\<close>,
  \<^verbatim>\<open>parseMessages\<close>, \<^verbatim>\<open>parseOptionalInteger\<close>, \<^verbatim>\<open>parseToolChoice\<close>), the answer
  extractor (\<^verbatim>\<open>extractAnswerText\<close>) and the result persister (\<^verbatim>\<open>persistResponse\<close>,
  \<^verbatim>\<open>cleanupPersistedFiles\<close>). The functions of the language and of the platform that
  they call (\<^verbatim>\<open>trim\<close>, \<^verbatim>\<open>Number\<close>, \<^verbatim>\<open>Math.floor\<close>, \<^verbatim>\<open>JSON.parse\<close>,
  \<^verbatim>\<open>JSON.stringify\<close>, \<^verbatim>\<open>path\<close>, \<^verbatim>\<open>fs\<close>) are modelled first, each after its
  specification. An exception is a left injection: a function that can throw returns
  \<open>error + 'a\<close>.
\<close>

section \<open>JavaScript strings and values\<close>

text \<open>
  A JavaScript string is a sequence of 16-bit code units. Literals of the source are
  written \<open>js ''...''\<close>. \<open>trim\<close> is \<^verbatim>\<open>String.prototype.trim\<close>: it strips the
  code units of ECMAScript's WhiteSpace and LineTerminator productions from both ends.
\<close>

type_synonym jschar = "16 word"
type_synonym jsstring = "jschar list"

definition js :: "string \<Rightarrow> jsstring" where
  "js s = map of_char s"

definition isWhiteSpace :: "jschar \<Rightarrow> bool" where
  "isWhiteSpace c \<longleftrightarrow>
     c = 0x0009 \<or> c = 0x000A \<or> c = 0x000B \<or> c = 0x000C \<or> c = 0x000D \<or> c = 0x0020 \<or>
     c = 0x00A0 \<or> c = 0x1680 \<or> (0x2000 \<le> c \<and> c \<le> 0x200A) \<or> c = 0x2028 \<or>
     c = 0x2029 \<or> c = 0x202F \<or> c = 0x205F \<or> c = 0x3000 \<or> c = 0xFEFF"

definition trim :: "jsstring \<Rightarrow> jsstring" where
  "trim s = rev (dropWhile isWhiteSpace (rev (dropWhile isWhiteSpace s)))"

text \<open>
  A number is a double: not-a-number, an infinity, or a finite value, which is a rational
  (the two zeros are identified: nothing below tells them apart).
\<close>

datatype jsnum = NaN | PosInfinity | NegInfinity | Finite rat

text \<open>
  The JSON-like values the program handles: what \<^verbatim>\<open>JSON.parse\<close> builds, and
  \<^verbatim>\<open>undefined\<close>. An object is the list of its own properties in enumeration
  order; a property is read with \<open>get_field\<close>, which gives \<^verbatim>\<open>undefined\<close> for a missing
  one.
\<close>

datatype jsval =
    JUndefined
  | JNull
  | JBool bool
  | JNum jsnum
  | JStr jsstring
  | JArr "jsval list"
  | JObj "(jsstring \<times> jsval) list"

text \<open>ToBoolean: what \<^verbatim>\<open>if (v)\<close> and \<^verbatim>\<open>!v\<close> test.\<close>

fun truthy :: "jsval \<Rightarrow> bool" where
  "truthy JUndefined = False"
| "truthy JNull = False"
| "truthy (JBool b) = b"
| "truthy (JNum n) = (n \<noteq> NaN \<and> n \<noteq> Finite 0)"
| "truthy (JStr s) = (s \<noteq> [])"
| "truthy (JArr xs) = True"
| "truthy (JObj ps) = True"

definition get_field :: "(jsstring \<times> jsval) list \<Rightarrow> string \<Rightarrow> jsval" where
  "get_field ps k = (case map_of ps (js k) of None \<Rightarrow> JUndefined | Some v \<Rightarrow> v)"

text \<open>\<^verbatim>\<open>Array.prototype.join\<close> on an array of strings.\<close>

fun join :: "jsstring \<Rightarrow> jsstring list \<Rightarrow> jsstring" where
  "join sep [] = []"
| "join sep [x] = x"
| "join sep (x # y # ys) = x @ sep @ join sep (y # ys)"

section \<open>The answer extractor\<close>

text \<open>
  The callback of \<^verbatim>\<open>record.content.map\<close>: the \<^verbatim>\<open>text\<close> of an entry that is truthy,
  has \<^verbatim>\<open>typeof\<close> \<^verbatim>\<open>'object'\<close> and a string \<^verbatim>\<open>text\<close>; \<^verbatim>\<open>undefined\<close> (here \<open>None\<close>)
  otherwise. An array entry has \<^verbatim>\<open>typeof\<close> \<^verbatim>\<open>'object'\<close> too, and no \<^verbatim>\<open>text\<close>.
\<close>

fun entry_text :: "jsval \<Rightarrow> jsstring option" where
  "entry_text (JObj ps) = (case get_field ps ''text'' of JStr s \<Rightarrow> Some s | _ \<Rightarrow> None)"
| "entry_text _ = None"

text \<open>
  \<^verbatim>\<open>textParts\<close>: the mapped entries, filtered by
  \<^verbatim>\<open>typeof value === 'string' && value.length > 0\<close>.
\<close>

fun is_nonempty_string :: "jsstring option \<Rightarrow> bool" where
  "is_nonempty_string None = False"
| "is_nonempty_string (Some value) = (length value > 0)"

definition textParts :: "jsval list \<Rightarrow> jsstring list" where
  "textParts content = map the (filter is_nonempty_string (map entry_text content))"

text \<open>The first \<^verbatim>\<open>if\<close> of the object branch: \<^verbatim>\<open>Array.isArray(record.content)\<close>.\<close>

definition content_text :: "(jsstring \<times> jsval) list \<Rightarrow> jsstring option" where
  "content_text record =
     (case get_field record ''content'' of
        JArr content \<Rightarrow>
          (if length (textParts content) > 0
           then Some (join [0x0A] (textParts content)) else None)
      | _ \<Rightarrow> None)"

text \<open>The second: a string \<^verbatim>\<open>record.text\<close> whose trimmed length is positive.\<close>

definition own_text :: "(jsstring \<times> jsval) list \<Rightarrow> jsstring option" where
  "own_text record =
     (case get_field record ''text'' of
        JStr t \<Rightarrow> (if length (trim t) > 0 then Some t else None)
      | _ \<Rightarrow> None)"

text \<open>
  \<^verbatim>\<open>if (nested) { return nested; }\<close>: a result is returned when it is a non-empty
  string, and the search goes on otherwise.
\<close>

definition if_nested :: "jsstring option \<Rightarrow> jsstring option" where
  "if_nested nested = (case nested of Some s \<Rightarrow> (if s \<noteq> [] then Some s else None) | None \<Rightarrow> None)"

lemma size_map_of:
  "map_of ps k = Some v \<Longrightarrow> size v < Suc (size_list (size_prod (\<lambda>_. 0) size) ps)"
  by (induction ps) (auto split: if_splits)

lemma size_get_field:
  "truthy (get_field ps k) \<Longrightarrow>
     size (get_field ps k) < Suc (size_list (size_prod (\<lambda>_. 0) size) ps)"
  by (auto simp: get_field_def split: option.splits dest: size_map_of)

text \<open>
  \<^verbatim>\<open>extractAnswerText\<close>, with its \<^verbatim>\<open>for\<close> loop over an array as \<open>extract_items\<close>.
  Each \<^verbatim>\<open>if\<close> of the object branch that does not return falls through to the next.
\<close>

function extractAnswerText :: "jsval \<Rightarrow> jsstring option"
  and extract_items :: "jsval list \<Rightarrow> jsstring option" where
  "extractAnswerText payload =
     (if \<not> truthy payload \<or> payload = JNull then None
      else case payload of
        JStr s \<Rightarrow> (if trim s \<noteq> [] then Some s else None)
      | JArr items \<Rightarrow> extract_items items
      | JObj record \<Rightarrow>
          (case content_text record of
             Some joined \<Rightarrow> Some joined
           | None \<Rightarrow>
              (case own_text record of
                 Some t \<Rightarrow> Some t
               | None \<Rightarrow>
                  (case (if truthy (get_field record ''response'')
                         then if_nested (extractAnswerText (get_field record ''response''))
                         else None) of
                     Some nested \<Rightarrow> Some nested
                   | None \<Rightarrow>
                      (if truthy (get_field record ''data'')
                       then if_nested (extractAnswerText (get_field record ''data''))
                       else None))))
      | _ \<Rightarrow> None)"
| "extract_items [] = None"
| "extract_items (item # rest) =
     (case if_nested (extractAnswerText item) of
        Some nested \<Rightarrow> Some nested
      | None \<Rightarrow> extract_items rest)"
  by pat_completeness auto
termination
  by (relation "measure (\<lambda>x. case x of Inl v \<Rightarrow> 2 * size v
                                     | Inr vs \<Rightarrow> 2 * size_list size vs + 1)")
     (auto dest: size_get_field)

declare extractAnswerText.simps(1) [simp del]

text \<open>
  The words of the specification, to compare the extractor with; none of them is built
  from the functions above. A string is \<open>blank\<close> when it is empty or all white space.
\<close>

definition blank :: "jsstring \<Rightarrow> bool" where
  "blank s = list_all isWhiteSpace s"

text \<open>
  ``Map each element to its \<^verbatim>\<open>text\<close> field when that element is an object with a string
  \<^verbatim>\<open>text\<close>; collect all found text strings (skip elements without one)''.
\<close>

fun spec_element_text :: "jsval \<Rightarrow> jsstring option" where
  "spec_element_text (JObj ps) =
     (case map_of ps (js ''text'') of Some (JStr s) \<Rightarrow> Some s | _ \<Rightarrow> None)"
| "spec_element_text _ = None"

definition spec_found_texts :: "jsval list \<Rightarrow> jsstring list" where
  "spec_found_texts content =
     concat (map (\<lambda>element. case spec_element_text element of None \<Rightarrow> [] | Some s \<Rightarrow> [s])
               content)"

text \<open>``Join them with newline'': a newline before each string but the first.\<close>

fun spec_lines :: "jsstring list \<Rightarrow> jsstring" where
  "spec_lines [] = []"
| "spec_lines (s # rest) = s @ concat (map (\<lambda>line. 0x0A # line) rest)"

text \<open>
  What the fields of an object yield. The \<^verbatim>\<open>content\<close> field: the found texts that are not
  empty, when it is an array. The \<^verbatim>\<open>text\<close> field: itself, when it is a string that is not
  blank. A field to recurse into: what the extractor finds in it, when the object has it.
\<close>

definition spec_content_texts :: "(jsstring \<times> jsval) list \<Rightarrow> jsstring list" where
  "spec_content_texts record =
     (case map_of record (js ''content'') of
        Some (JArr content) \<Rightarrow> filter (\<lambda>s. s \<noteq> []) (spec_found_texts content)
      | _ \<Rightarrow> [])"

definition spec_text :: "(jsstring \<times> jsval) list \<Rightarrow> jsstring option" where
  "spec_text record =
     (case map_of record (js ''text'') of
        Some (JStr t) \<Rightarrow> if blank t then None else Some t
      | _ \<Rightarrow> None)"

definition spec_nested :: "(jsstring \<times> jsval) list \<Rightarrow> string \<Rightarrow> jsstring option" where
  "spec_nested record k =
     (case map_of record (js k) of None \<Rightarrow> None | Some v \<Rightarrow> extractAnswerText v)"

text \<open>
  The object branch as a sequence of checks with fall-through: the first of the four that
  yields a string.
\<close>

definition spec_object_fall_through :: "(jsstring \<times> jsval) list \<Rightarrow> jsstring option" where
  "spec_object_fall_through record =
     (if spec_content_texts record \<noteq> [] then Some (spec_lines (spec_content_texts record))
      else case spec_text record of
             Some t \<Rightarrow> Some t
           | None \<Rightarrow>
               (case spec_nested record ''response'' of
                  Some s \<Rightarrow> Some s
                | None \<Rightarrow> spec_nested record ''data''))"

text \<open>
  The object branch read as a strict else-if chain: an object with a \<^verbatim>\<open>content\<close> array is
  settled by that array alone; otherwise a non-blank \<^verbatim>\<open>text\<close>; otherwise the
  \<^verbatim>\<open>response\<close> field if the object has one; otherwise the \<^verbatim>\<open>data\<close> field if it has one.
\<close>

definition has_field :: "(jsstring \<times> jsval) list \<Rightarrow> string \<Rightarrow> bool" where
  "has_field ps k = (map_of ps (js k) \<noteq> None)"

definition extract_object_strict :: "(jsstring \<times> jsval) list \<Rightarrow> jsstring option" where
  "extract_object_strict record =
     (case map_of record (js ''content'') of
        Some (JArr content) \<Rightarrow>
          (if spec_content_texts record \<noteq> [] then Some (spec_lines (spec_content_texts record))
           else None)
      | _ \<Rightarrow>
        (case spec_text record of
           Some t \<Rightarrow> Some t
         | None \<Rightarrow>
            (if has_field record ''response'' then spec_nested record ''response''
             else spec_nested record ''data'')))"

section \<open>Numbers\<close>

text \<open>
  \<^verbatim>\<open>Number(string)\<close> is ECMAScript's StringToNumber: the string, stripped of white
  space, is read by the grammar of StringNumericLiteral, and its exact value is rounded to
  the nearest double, ties to even. A string outside the grammar gives \<open>NaN\<close>.
\<close>

definition pow2 :: "int \<Rightarrow> rat" where
  "pow2 e = (if 0 \<le> e then 2 ^ nat e else 1 / 2 ^ nat (- e))"

definition pow10 :: "int \<Rightarrow> rat" where
  "pow10 e = (if 0 \<le> e then 10 ^ nat e else 1 / 10 ^ nat (- e))"

function bitLength :: "int \<Rightarrow> nat" where
  "bitLength n = (if n \<le> 0 then 0 else Suc (bitLength (n div 2)))"
  by pat_completeness auto
termination
  by (relation "measure nat") auto

declare bitLength.simps [simp del]

text \<open>The integer part of the binary logarithm of a positive rational.\<close>

definition floorLog2 :: "rat \<Rightarrow> int" where
  "floorLog2 a =
     (if 1 \<le> a then int (bitLength \<lfloor>a\<rfloor>) - 1
      else - int (bitLength (\<lceil>1 / a\<rceil> - 1)))"

definition roundTiesToEven :: "rat \<Rightarrow> int" where
  "roundTiesToEven q =
     (let f = \<lfloor>q\<rfloor>; r = q - of_int f
      in if r < 1 / 2 then f else if 1 / 2 < r then f + 1 else if even f then f else f + 1)"

text \<open>
  The double nearest to a rational: 53 significant bits, the exponent of the last bit at
  least \<open>-1074\<close>, and an infinity from \<open>2 ^ 1024\<close> on.
\<close>

definition roundToDouble :: "rat \<Rightarrow> jsnum" where
  "roundToDouble q =
     (if q = 0 then Finite 0
      else let a = \<bar>q\<bar>;
               e = max (floorLog2 a - 52) (- 1074);
               v = of_int (roundTiesToEven (a / pow2 e)) * pow2 e
           in if pow2 1024 \<le> v then (if q < 0 then NegInfinity else PosInfinity)
              else Finite (if q < 0 then - v else v))"

definition isDigit :: "jschar \<Rightarrow> bool" where
  "isDigit c \<longleftrightarrow> 0x30 \<le> c \<and> c \<le> 0x39"

text \<open>The value of a digit in a base up to 16, when it is one.\<close>

definition digitIn :: "nat \<Rightarrow> jschar \<Rightarrow> nat option" where
  "digitIn base c =
     (let d = (if 0x30 \<le> c \<and> c \<le> 0x39 then unat c - 0x30
               else if 0x61 \<le> c \<and> c \<le> 0x66 then unat c - 0x61 + 10
               else if 0x41 \<le> c \<and> c \<le> 0x46 then unat c - 0x41 + 10
               else 16)
      in if d < base then Some d else None)"

definition digitsValue :: "nat \<Rightarrow> jsstring \<Rightarrow> int" where
  "digitsValue base ds =
     foldl (\<lambda>acc c. acc * int base + (case digitIn base c of None \<Rightarrow> 0 | Some d \<Rightarrow> int d)) 0 ds"

definition allDigits :: "nat \<Rightarrow> jsstring \<Rightarrow> bool" where
  "allDigits base ds \<longleftrightarrow> ds \<noteq> [] \<and> list_all (\<lambda>c. digitIn base c \<noteq> None) ds"

text \<open>SignedInteger: decimal digits after an optional sign.\<close>

definition signedInteger :: "jsstring \<Rightarrow> int option" where
  "signedInteger r =
     (case r of
        [] \<Rightarrow> None
      | c # ds \<Rightarrow>
          if c = 0x2B then (if allDigits 10 ds then Some (digitsValue 10 ds) else None)
          else if c = 0x2D then (if allDigits 10 ds then Some (- digitsValue 10 ds) else None)
          else if allDigits 10 r then Some (digitsValue 10 r) else None)"

text \<open>ExponentPart, optional: the whole of what follows the digits.\<close>

definition exponentPart :: "jsstring \<Rightarrow> int option" where
  "exponentPart r =
     (case r of
        [] \<Rightarrow> Some 0
      | c # r' \<Rightarrow> if c = 0x65 \<or> c = 0x45 then signedInteger r' else None)"

datatype literal_value = LitInfinity | LitValue rat

text \<open>
  StrUnsignedDecimalLiteral: \<^verbatim>\<open>Infinity\<close>, or digits with an optional fraction and
  exponent, at least one digit before or after the point.
\<close>

definition strUnsignedDecimalLiteral :: "jsstring \<Rightarrow> literal_value option" where
  "strUnsignedDecimalLiteral t =
     (if t = js ''Infinity'' then Some LitInfinity
      else let ip = takeWhile isDigit t;
               r1 = dropWhile isDigit t;
               point = (r1 \<noteq> [] \<and> hd r1 = 0x2E);
               fp = (if point then takeWhile isDigit (tl r1) else []);
               r2 = (if point then dropWhile isDigit (tl r1) else r1)
           in if ip = [] \<and> fp = [] then None
              else case exponentPart r2 of
                     None \<Rightarrow> None
                   | Some e \<Rightarrow>
                       Some (LitValue (of_int (digitsValue 10 (ip @ fp))
                                       * pow10 (e - int (length fp)))))"

text \<open>NonDecimalIntegerLiteral: \<^verbatim>\<open>0b\<close>, \<^verbatim>\<open>0o\<close> or \<^verbatim>\<open>0x\<close> (either case) and digits.\<close>

definition nonDecimalIntegerLiteral :: "jsstring \<Rightarrow> literal_value option" where
  "nonDecimalIntegerLiteral t =
     (case t of
        z # p # ds \<Rightarrow>
          (let base = (if p = 0x62 \<or> p = 0x42 then 2
                       else if p = 0x6F \<or> p = 0x4F then 8
                       else if p = 0x78 \<or> p = 0x58 then 16 else 0)
           in if z = 0x30 \<and> base \<noteq> 0 \<and> allDigits base ds
              then Some (LitValue (of_int (digitsValue base ds))) else None)
      | _ \<Rightarrow> None)"

text \<open>StrNumericLiteral, as a sign and a magnitude.\<close>

definition strNumericLiteral :: "jsstring \<Rightarrow> (bool \<times> literal_value) option" where
  "strNumericLiteral t =
     (case nonDecimalIntegerLiteral t of
        Some v \<Rightarrow> Some (False, v)
      | None \<Rightarrow>
          (case t of
             [] \<Rightarrow> None
           | c # r \<Rightarrow>
               if c = 0x2B then map_option (Pair False) (strUnsignedDecimalLiteral r)
               else if c = 0x2D then map_option (Pair True) (strUnsignedDecimalLiteral r)
               else map_option (Pair False) (strUnsignedDecimalLiteral t)))"

definition Number :: "jsstring \<Rightarrow> jsnum" where
  "Number s =
     (let t = trim s
      in if t = [] then Finite 0
         else case strNumericLiteral t of
                None \<Rightarrow> NaN
              | Some (negative, LitInfinity) \<Rightarrow> (if negative then NegInfinity else PosInfinity)
              | Some (negative, LitValue q) \<Rightarrow> roundToDouble (if negative then - q else q))"

text \<open>\<^verbatim>\<open>Math.floor\<close>: a finite value goes to the integer below it, the rest to itself.\<close>

fun Math_floor :: "jsnum \<Rightarrow> jsnum" where
  "Math_floor (Finite q) = Finite (of_int \<lfloor>q\<rfloor>)"
| "Math_floor n = n"

definition is_integer :: "jsnum \<Rightarrow> bool" where
  "is_integer n = (case n of Finite q \<Rightarrow> q = of_int \<lfloor>q\<rfloor> | _ \<Rightarrow> False)"

section \<open>JSON.parse\<close>

text \<open>
  \<^verbatim>\<open>JSON.parse\<close> on a string, in two passes: the text is cut into tokens, and the tokens
  are read by a stack machine for the JSON grammar. Either pass may fail, which is the
  \<^verbatim>\<open>SyntaxError\<close> of the source.
\<close>

datatype token =
    LBrace | RBrace | LBracket | RBracket | Colon | Comma
  | TString jsstring | TNumber jsnum | TTrue | TFalse | TNull

definition isJsonWhiteSpace :: "jschar \<Rightarrow> bool" where
  "isJsonWhiteSpace c \<longleftrightarrow> c = 0x09 \<or> c = 0x0A \<or> c = 0x0D \<or> c = 0x20"

text \<open>The character a one-letter escape stands for.\<close>

definition escapeChar :: "jschar \<Rightarrow> jschar option" where
  "escapeChar e =
     (if e = 0x22 then Some 0x22
      else if e = 0x5C then Some 0x5C
      else if e = 0x2F then Some 0x2F
      else if e = 0x62 then Some 0x08
      else if e = 0x66 then Some 0x0C
      else if e = 0x6E then Some 0x0A
      else if e = 0x72 then Some 0x0D
      else if e = 0x74 then Some 0x09
      else None)"

text \<open>
  The rest of a string literal after its opening quote: the characters read so far (in
  reverse), then the input. It gives the string and what follows the closing quote.
\<close>

function lex_string :: "jsstring \<Rightarrow> jsstring \<Rightarrow> (jsstring \<times> jsstring) option" where
  "lex_string acc [] = None"
| "lex_string acc (c # cs) =
     (if c = 0x22 then Some (rev acc, cs)
      else if c = 0x5C then
        (case cs of
           [] \<Rightarrow> None
         | e # cs' \<Rightarrow>
             if e = 0x75 then
               (if 4 \<le> length cs' \<and> allDigits 16 (take 4 cs')
                then lex_string (word_of_int (digitsValue 16 (take 4 cs')) # acc) (drop 4 cs')
                else None)
             else (case escapeChar e of
                     None \<Rightarrow> None
                   | Some ch \<Rightarrow> lex_string (ch # acc) cs'))
      else if c < 0x20 then None
      else lex_string (c # acc) cs)"
  by pat_completeness auto
termination
  by (relation "measure (\<lambda>(acc, cs). length cs)") auto

text \<open>
  A number literal at the head of the input: an optional minus, an integer part with no
  leading zero, an optional fraction, an optional exponent. It gives the double and the
  rest of the input.
\<close>

definition lex_fraction :: "jsstring \<Rightarrow> (jsstring \<times> jsstring) option" where
  "lex_fraction r =
     (if r \<noteq> [] \<and> hd r = 0x2E then
        (let fp = takeWhile isDigit (tl r)
         in if fp = [] then None else Some (fp, drop (length fp) (tl r)))
      else Some ([], r))"

definition lex_exponent :: "jsstring \<Rightarrow> (int \<times> jsstring) option" where
  "lex_exponent r =
     (if r \<noteq> [] \<and> (hd r = 0x65 \<or> hd r = 0x45) then
        (let r' = tl r;
             minus = (r' \<noteq> [] \<and> hd r' = 0x2D);
             plus = (r' \<noteq> [] \<and> hd r' = 0x2B);
             r'' = (if minus \<or> plus then tl r' else r');
             ep = takeWhile isDigit r''
         in if ep = [] then None
            else Some (if minus then - digitsValue 10 ep else digitsValue 10 ep,
                       drop (length ep) r''))
      else Some (0, r))"

definition lex_number :: "jsstring \<Rightarrow> (jsnum \<times> jsstring) option" where
  "lex_number t =
     (let negative = (t \<noteq> [] \<and> hd t = 0x2D);
          r0 = (if negative then tl t else t);
          ip = (if r0 \<noteq> [] \<and> hd r0 = 0x30 then [0x30] else takeWhile isDigit r0)
      in if ip = [] then None
         else case lex_fraction (drop (length ip) r0) of
                None \<Rightarrow> None
              | Some (fp, r2) \<Rightarrow>
                  (case lex_exponent r2 of
                     None \<Rightarrow> None
                   | Some (e, r3) \<Rightarrow>
                       (let q = of_int (digitsValue 10 (ip @ fp)) * pow10 (e - int (length fp))
                        in Some (roundToDouble (if negative then - q else q), r3))))"

lemma lex_string_length:
  "lex_string acc cs = Some (s, rest) \<Longrightarrow> length rest \<le> length cs"
proof (induction acc cs rule: lex_string.induct)
  case (1 acc)
  then show ?case by simp
next
  case (2 acc c cs)
  show ?case
  proof (cases "c = 0x22")
    case True
    with "2.prems" show ?thesis by simp
  next
    case quote: False
    show ?thesis
    proof (cases "c = 0x5C")
      case False
      with quote "2.prems" have "c \<ge> 0x20" "lex_string (c # acc) cs = Some (s, rest)"
        by (simp_all split: if_splits)
      with "2.IH"(3) [OF quote False] have "length rest \<le> length cs"
        by (simp add: not_less)
      then show ?thesis by simp
    next
      case True
      show ?thesis
      proof (cases cs)
        case Nil
        with quote True "2.prems" show ?thesis by simp
      next
        case (Cons e cs')
        show ?thesis
        proof (cases "e = 0x75")
          case u: True
          with quote True Cons "2.prems"
          have ok: "4 \<le> length cs' \<and> allDigits 16 (take 4 cs')"
            and r: "lex_string (word_of_int (digitsValue 16 (take 4 cs')) # acc) (drop 4 cs')
                     = Some (s, rest)"
            by (simp_all split: if_splits)
          from "2.IH"(1) [OF quote True Cons u ok r]
          show ?thesis using Cons by simp
        next
          case nu: False
          with quote True Cons "2.prems"
          obtain ch where ch: "escapeChar e = Some ch"
            and r: "lex_string (ch # acc) cs' = Some (s, rest)"
            by (auto split: option.splits)
          from "2.IH"(2) [OF quote True Cons nu ch r]
          show ?thesis using Cons by simp
        qed
      qed
    qed
  qed
qed

lemma lex_fraction_length: "lex_fraction r = Some (fp, r2) \<Longrightarrow> length r2 \<le> length r"
  by (auto simp: lex_fraction_def Let_def split: if_splits)

lemma lex_exponent_length: "lex_exponent r = Some (e, r3) \<Longrightarrow> length r3 \<le> length r"
  by (auto simp: lex_exponent_def Let_def split: if_splits)

lemma lex_number_length:
  assumes "lex_number t = Some (n, rest)"
  shows "length rest < length t"
proof -
  define r0 where "r0 = (if t \<noteq> [] \<and> hd t = 0x2D then tl t else t)"
  define ip where "ip = (if r0 \<noteq> [] \<and> hd r0 = 0x30 then [0x30] else takeWhile isDigit r0)"
  from assms have ip: "ip \<noteq> []"
    by (auto simp: lex_number_def Let_def r0_def ip_def split: if_splits)
  from assms ip obtain fp r2 e where
    f: "lex_fraction (drop (length ip) r0) = Some (fp, r2)" and x: "lex_exponent r2 = Some (e, rest)"
    unfolding lex_number_def Let_def r0_def [symmetric] ip_def [symmetric]
    by (cases "lex_fraction (drop (length ip) r0)") (auto split: option.splits)
  have "length ip \<le> length r0"
    by (cases r0) (auto simp: ip_def length_takeWhile_le)
  with ip have "length (drop (length ip) r0) < length r0"
    by (cases ip) auto
  moreover have "length r0 \<le> length t"
    by (simp add: r0_def)
  ultimately show ?thesis
    using lex_fraction_length [OF f] lex_exponent_length [OF x] by linarith
qed

text \<open>The tokens of a text; \<open>None\<close> when some character starts no token.\<close>

function tokenize :: "jsstring \<Rightarrow> token list option" where
  "tokenize [] = Some []"
| "tokenize (c # cs) =
     (if isJsonWhiteSpace c then tokenize cs
      else if c = 0x7B then map_option (Cons LBrace) (tokenize cs)
      else if c = 0x7D then map_option (Cons RBrace) (tokenize cs)
      else if c = 0x5B then map_option (Cons LBracket) (tokenize cs)
      else if c = 0x5D then map_option (Cons RBracket) (tokenize cs)
      else if c = 0x3A then map_option (Cons Colon) (tokenize cs)
      else if c = 0x2C then map_option (Cons Comma) (tokenize cs)
      else if c = 0x22 then
        (case lex_string [] cs of
           None \<Rightarrow> None
         | Some (s, rest) \<Rightarrow> map_option (Cons (TString s)) (tokenize rest))
      else if c = 0x2D \<or> isDigit c then
        (case lex_number (c # cs) of
           None \<Rightarrow> None
         | Some (n, rest) \<Rightarrow> map_option (Cons (TNumber n)) (tokenize rest))
      else if take 4 (c # cs) = js ''true'' then map_option (Cons TTrue) (tokenize (drop 3 cs))
      else if take 5 (c # cs) = js ''false'' then map_option (Cons TFalse) (tokenize (drop 4 cs))
      else if take 4 (c # cs) = js ''null'' then map_option (Cons TNull) (tokenize (drop 3 cs))
      else None)"
  by pat_completeness auto
termination
proof (relation "measure length")
  fix c cs x s rest
  assume "lex_string [] cs = Some x" "(s, rest) = x"
  then show "(rest, c # cs) \<in> measure length"
    using lex_string_length [of "[]" cs s rest] by simp
next
  fix c cs x n rest
  assume "lex_number (c # cs) = Some x" "(n, rest) = x"
  then show "(rest, c # cs) \<in> measure length"
    using lex_number_length [of "c # cs" n rest] by simp
qed simp_all

text \<open>
  Defining a property on the object being built. A key already there keeps its place and
  takes the new value. A new key that is an array index (a canonical numeral below
  \<open>2 ^ 32 - 1\<close>) goes among the array indices, in ascending order, and these come first;
  any other new key goes last.
\<close>

definition arrayIndex :: "jsstring \<Rightarrow> int option" where
  "arrayIndex k =
     (if allDigits 10 k \<and> (k = [0x30] \<or> hd k \<noteq> 0x30) \<and> digitsValue 10 k < 2 ^ 32 - 1
      then Some (digitsValue 10 k) else None)"

fun insertIndexed :: "int \<Rightarrow> jsstring \<Rightarrow> jsval \<Rightarrow> (jsstring \<times> jsval) list
    \<Rightarrow> (jsstring \<times> jsval) list" where
  "insertIndexed i k v [] = [(k, v)]"
| "insertIndexed i k v ((k', v') # ps) =
     (case arrayIndex k' of
        None \<Rightarrow> (k, v) # (k', v') # ps
      | Some j \<Rightarrow> if i < j then (k, v) # (k', v') # ps else (k', v') # insertIndexed i k v ps)"

definition defineProperty :: "(jsstring \<times> jsval) list \<Rightarrow> jsstring \<Rightarrow> jsval
    \<Rightarrow> (jsstring \<times> jsval) list" where
  "defineProperty ps k v =
     (if map_of ps k \<noteq> None then map (\<lambda>(k', v'). if k' = k then (k', v) else (k', v')) ps
      else case arrayIndex k of
             None \<Rightarrow> ps @ [(k, v)]
           | Some i \<Rightarrow> insertIndexed i k v ps)"

text \<open>
  The stack machine. A frame is an array or an object under construction, the object with
  the key whose value is awaited; \<open>expect\<close> is what the grammar allows next.
\<close>

datatype frame =
    ArrayFrame "jsval list"
  | ObjectFrame "(jsstring \<times> jsval) list" "jsstring option"

datatype expect =
    ExpectValue | ExpectValueOrClose | ExpectKeyOrClose | ExpectKey | ExpectColon
  | ExpectCommaOrClose

datatype parser = Parsing "frame list" expect | Complete jsval

text \<open>A finished value goes into the container on top of the stack, or is the result.\<close>

fun deliver :: "jsval \<Rightarrow> frame list \<Rightarrow> parser option" where
  "deliver v [] = Some (Complete v)"
| "deliver v (ArrayFrame xs # st) = Some (Parsing (ArrayFrame (xs @ [v]) # st) ExpectCommaOrClose)"
| "deliver v (ObjectFrame ps (Some k) # st) =
     Some (Parsing (ObjectFrame (defineProperty ps k v) None # st) ExpectCommaOrClose)"
| "deliver v (ObjectFrame ps None # st) = None"

fun begin_value :: "frame list \<Rightarrow> token \<Rightarrow> parser option" where
  "begin_value st LBracket = Some (Parsing (ArrayFrame [] # st) ExpectValueOrClose)"
| "begin_value st LBrace = Some (Parsing (ObjectFrame [] None # st) ExpectKeyOrClose)"
| "begin_value st (TString s) = deliver (JStr s) st"
| "begin_value st (TNumber n) = deliver (JNum n) st"
| "begin_value st TTrue = deliver (JBool True) st"
| "begin_value st TFalse = deliver (JBool False) st"
| "begin_value st TNull = deliver JNull st"
| "begin_value st _ = None"

fun close_frame :: "frame list \<Rightarrow> token \<Rightarrow> parser option" where
  "close_frame (ArrayFrame xs # st) RBracket = deliver (JArr xs) st"
| "close_frame (ObjectFrame ps None # st) RBrace = deliver (JObj ps) st"
| "close_frame _ _ = None"

fun begin_key :: "frame list \<Rightarrow> token \<Rightarrow> parser option" where
  "begin_key (ObjectFrame ps None # st) (TString k) =
     Some (Parsing (ObjectFrame ps (Some k) # st) ExpectColon)"
| "begin_key _ _ = None"

fun after_value :: "frame list \<Rightarrow> token \<Rightarrow> parser option" where
  "after_value (ArrayFrame xs # st) Comma = Some (Parsing (ArrayFrame xs # st) ExpectValue)"
| "after_value (ObjectFrame ps None # st) Comma =
     Some (Parsing (ObjectFrame ps None # st) ExpectKey)"
| "after_value st tok = close_frame st tok"

fun step :: "parser \<Rightarrow> token \<Rightarrow> parser option" where
  "step (Complete v) tok = None"
| "step (Parsing st ExpectValue) tok = begin_value st tok"
| "step (Parsing st ExpectValueOrClose) tok =
     (if tok = RBracket then close_frame st tok else begin_value st tok)"
| "step (Parsing st ExpectKeyOrClose) tok =
     (if tok = RBrace then close_frame st tok else begin_key st tok)"
| "step (Parsing st ExpectKey) tok = begin_key st tok"
| "step (Parsing st ExpectColon) tok =
     (if tok = Colon then Some (Parsing st ExpectValue) else None)"
| "step (Parsing st ExpectCommaOrClose) tok = after_value st tok"

fun run :: "parser \<Rightarrow> token list \<Rightarrow> parser option" where
  "run p [] = Some p"
| "run p (tok # toks) = (case step p tok of None \<Rightarrow> None | Some p' \<Rightarrow> run p' toks)"

text \<open>
  What the program can throw: \<^verbatim>\<open>new Error(message)\<close>; the \<^verbatim>\<open>SyntaxError\<close> of
  \<^verbatim>\<open>JSON.parse\<close>, whose message is the engine's own; an \<^verbatim>\<open>Error\<close> whose message is a
  prefix followed by the message of such a \<^verbatim>\<open>SyntaxError\<close>; a failed file system call,
  with its code; and the \<^verbatim>\<open>TypeError\<close> of a call on a value of the wrong type.
\<close>

datatype error =
    Error jsstring
  | SyntaxError
  | ErrorQuotingSyntaxError jsstring
  | SystemError string
  | TypeError

definition JSON_parse :: "jsstring \<Rightarrow> error + jsval" where
  "JSON_parse text =
     (case tokenize text of
        None \<Rightarrow> Inl SyntaxError
      | Some toks \<Rightarrow>
          (case run (Parsing [] ExpectValue) toks of
             Some (Complete v) \<Rightarrow> Inr v
           | _ \<Rightarrow> Inl SyntaxError))"

section \<open>JSON.stringify\<close>

text \<open>
  \<^verbatim>\<open>String(n)\<close> for a natural number: its decimal digits.
\<close>

fun String_nat :: "nat \<Rightarrow> jsstring" where
  "String_nat n =
     (if n < 10 then [word_of_nat (0x30 + n)]
      else String_nat (n div 10) @ [word_of_nat (0x30 + n mod 10)])"

declare String_nat.simps [simp del]

definition String_int :: "int \<Rightarrow> jsstring" where
  "String_int i = (if i < 0 then 0x2D # String_nat (nat (- i)) else String_nat (nat i))"

text \<open>
  \<^verbatim>\<open>Number::toString\<close> on a positive finite number \<open>x\<close> writes the digits of the integer
  \<open>s\<close> with the least number \<open>k\<close> of digits such that \<open>s * 10 ^ (n - k)\<close> rounds to \<open>x\<close>,
  the one nearest to \<open>x\<close> if there are several. \<open>decimalExponent x\<close> is the \<open>n\<close> with
  \<open>10 ^ (n - 1) \<le> x < 10 ^ n\<close>.
\<close>

definition decimalExponent :: "rat \<Rightarrow> int" where
  "decimalExponent x =
     (if 1 \<le> x then int (length (String_nat (nat \<lfloor>x\<rfloor>)))
      else 1 - (if \<lceil>1 / x\<rceil> = 1 then 0 else int (length (String_nat (nat (\<lceil>1 / x\<rceil> - 1))))))"

text \<open>
  The candidates with \<open>k\<close> digits: the two integers around \<open>x / 10 ^ (n - k)\<close>. A
  candidate is a pair of \<open>s\<close> and the exponent of its last digit.
\<close>

definition candidate :: "rat \<Rightarrow> nat \<Rightarrow> (int \<times> int) option" where
  "candidate x k =
     (let e = decimalExponent x - int k;
          lo = \<lfloor>x / pow10 e\<rfloor>;
          okLo = (roundToDouble (of_int lo * pow10 e) = Finite x);
          okHi = (roundToDouble (of_int (lo + 1) * pow10 e) = Finite x);
          dLo = x - of_int lo * pow10 e;
          dHi = of_int (lo + 1) * pow10 e - x
      in if okLo \<and> (\<not> okHi \<or> dLo < dHi \<or> (dLo = dHi \<and> even lo)) then Some (lo, e)
         else if okHi then Some (lo + 1, e)
         else None)"

fun shortest :: "rat \<Rightarrow> nat \<Rightarrow> nat \<Rightarrow> int \<times> int" where
  "shortest x k 0 = (\<lfloor>x / pow10 (decimalExponent x - int k)\<rfloor>, decimalExponent x - int k)"
| "shortest x k (Suc fuel) =
     (case candidate x k of Some c \<Rightarrow> c | None \<Rightarrow> shortest x (Suc k) fuel)"

text \<open>
  The text of a positive number from its digits \<open>ds\<close> and the position \<open>n\<close> of the decimal
  point after the first digit group: plain digits, a decimal point inside or before the
  digits, or the exponent notation.
\<close>

definition layout :: "jsstring \<Rightarrow> int \<Rightarrow> jsstring" where
  "layout ds n =
     (let k = int (length ds)
      in if k \<le> n \<and> n \<le> 21 then ds @ replicate (nat (n - k)) 0x30
         else if 0 < n \<and> n \<le> 21 then take (nat n) ds @ [0x2E] @ drop (nat n) ds
         else if - 6 < n \<and> n \<le> 0 then [0x30, 0x2E] @ replicate (nat (- n)) 0x30 @ ds
         else (if k = 1 then ds else take 1 ds @ [0x2E] @ drop 1 ds)
              @ [0x65, if 0 \<le> n - 1 then 0x2B else 0x2D] @ String_nat (nat \<bar>n - 1\<bar>))"

text \<open>Trailing zeros of \<open>s\<close> belong to the exponent: \<open>10\<close> with exponent 0 is \<open>1\<close> with 1.\<close>

function strip_zeros :: "int \<times> int \<Rightarrow> int \<times> int" where
  "strip_zeros (s, e) = (if s \<noteq> 0 \<and> s mod 10 = 0 then strip_zeros (s div 10, e + 1) else (s, e))"
  by pat_completeness auto
termination
  by (relation "measure (\<lambda>(s, e). nat \<bar>s\<bar>)") auto

declare strip_zeros.simps [simp del]

definition Number_toString :: "jsnum \<Rightarrow> jsstring" where
  "Number_toString x =
     (case x of
        NaN \<Rightarrow> js ''NaN''
      | PosInfinity \<Rightarrow> js ''Infinity''
      | NegInfinity \<Rightarrow> js ''-Infinity''
      | Finite q \<Rightarrow>
          if q = 0 then js ''0''
          else let (s, e) = strip_zeros (shortest \<bar>q\<bar> 1 17);
                   ds = String_nat (nat s);
                   text = layout ds (e + int (length ds))
               in if q < 0 then 0x2D # text else text)"

text \<open>
  QuoteJSONString: the string between double quotes, with the escapes of JSON for the
  quote, the backslash and the control characters, and a \<^verbatim>\<open>\u\<close> escape for a surrogate
  that is not half of a pair.
\<close>

definition hex4 :: "jschar \<Rightarrow> jsstring" where
  "hex4 c =
     map (\<lambda>i. let d = (unat c div 16 ^ i) mod 16
               in word_of_nat (if d < 10 then 0x30 + d else 0x61 + d - 10)) [3, 2, 1, 0]"

definition unicodeEscape :: "jschar \<Rightarrow> jsstring" where
  "unicodeEscape c = [0x5C, 0x75] @ hex4 c"

definition isHighSurrogate :: "jschar \<Rightarrow> bool" where
  "isHighSurrogate c \<longleftrightarrow> 0xD800 \<le> c \<and> c \<le> 0xDBFF"

definition isLowSurrogate :: "jschar \<Rightarrow> bool" where
  "isLowSurrogate c \<longleftrightarrow> 0xDC00 \<le> c \<and> c \<le> 0xDFFF"

definition escapeUnit :: "jschar \<Rightarrow> jsstring" where
  "escapeUnit c =
     (if c = 0x08 then [0x5C, 0x62]
      else if c = 0x09 then [0x5C, 0x74]
      else if c = 0x0A then [0x5C, 0x6E]
      else if c = 0x0C then [0x5C, 0x66]
      else if c = 0x0D then [0x5C, 0x72]
      else if c = 0x22 then [0x5C, 0x22]
      else if c = 0x5C then [0x5C, 0x5C]
      else if c < 0x20 \<or> isHighSurrogate c \<or> isLowSurrogate c then unicodeEscape c
      else [c])"

fun quoteBody :: "jsstring \<Rightarrow> jsstring" where
  "quoteBody [] = []"
| "quoteBody [c] = escapeUnit c"
| "quoteBody (c # d # cs) =
     (if isHighSurrogate c \<and> isLowSurrogate d then c # d # quoteBody cs
      else escapeUnit c @ quoteBody (d # cs))"

definition quoteJSONString :: "jsstring \<Rightarrow> jsstring" where
  "quoteJSONString s = [0x22] @ quoteBody s @ [0x22]"

text \<open>
  SerializeJSONProperty with a gap of two spaces; \<open>indent\<close> is the current indentation.
  \<open>None\<close> is \<^verbatim>\<open>undefined\<close>: such a property is left out of an object, and such an
  element is written \<^verbatim>\<open>null\<close> in an array.
\<close>

definition bracket :: "jschar \<Rightarrow> jschar \<Rightarrow> jsstring \<Rightarrow> jsstring list \<Rightarrow> jsstring" where
  "bracket opening closing indent partial =
     (if partial = [] then [opening, closing]
      else [opening, 0x0A] @ indent @ [0x20, 0x20]
           @ join ([0x2C, 0x0A] @ indent @ [0x20, 0x20]) partial
           @ [0x0A] @ indent @ [closing])"

fun serialize :: "jsstring \<Rightarrow> jsval \<Rightarrow> jsstring option"
  and serializeElements :: "jsstring \<Rightarrow> jsval list \<Rightarrow> jsstring list"
  and serializeMembers :: "jsstring \<Rightarrow> (jsstring \<times> jsval) list \<Rightarrow> jsstring list" where
  "serialize indent JUndefined = None"
| "serialize indent JNull = Some (js ''null'')"
| "serialize indent (JBool b) = Some (if b then js ''true'' else js ''false'')"
| "serialize indent (JNum n) =
     Some (case n of Finite q \<Rightarrow> Number_toString n | _ \<Rightarrow> js ''null'')"
| "serialize indent (JStr s) = Some (quoteJSONString s)"
| "serialize indent (JArr xs) =
     Some (bracket 0x5B 0x5D indent (serializeElements (indent @ [0x20, 0x20]) xs))"
| "serialize indent (JObj ps) =
     Some (bracket 0x7B 0x7D indent (serializeMembers (indent @ [0x20, 0x20]) ps))"
| "serializeElements indent [] = []"
| "serializeElements indent (x # xs) =
     (case serialize indent x of None \<Rightarrow> js ''null'' | Some text \<Rightarrow> text)
       # serializeElements indent xs"
| "serializeMembers indent [] = []"
| "serializeMembers indent ((k, v) # ps) =
     (case serialize indent v of
        None \<Rightarrow> serializeMembers indent ps
      | Some text \<Rightarrow> (quoteJSONString k @ [0x3A, 0x20] @ text) # serializeMembers indent ps)"

text \<open>\<^verbatim>\<open>JSON.stringify(value, null, 2)\<close>.\<close>

definition JSON_stringify :: "jsval \<Rightarrow> jsstring option" where
  "JSON_stringify v = serialize [] v"

section \<open>Input normalization\<close>

text \<open>
  The inputs of a run: \<^verbatim>\<open>core.getInput(name)\<close>, which is always a string (empty when the
  input is not set), and \<^verbatim>\<open>process.env\<close>, where a variable may be missing.
\<close>

record environment =
  getInput :: "string \<Rightarrow> jsstring"
  env :: "string \<Rightarrow> jsstring option"

text \<open>
  \<^verbatim>\<open>a || b\<close> on operands that are a string or \<^verbatim>\<open>undefined\<close> (\<open>None\<close>): the left one
  when it is a non-empty string, the right one otherwise. \<open>or_string\<close> is the case of
  a right operand that is a string literal.
\<close>

definition js_or :: "jsstring option \<Rightarrow> jsstring option \<Rightarrow> jsstring option" where
  "js_or a b = (case a of None \<Rightarrow> b | Some s \<Rightarrow> if s \<noteq> [] then a else b)"

definition or_string :: "jsstring option \<Rightarrow> jsstring \<Rightarrow> jsstring" where
  "or_string a d = (case a of None \<Rightarrow> d | Some s \<Rightarrow> if s \<noteq> [] then s else d)"

record coordinates =
  database :: jsstring
  schema :: jsstring
  agentName :: jsstring

definition resolveAgentCoordinates :: "environment \<Rightarrow> error + coordinates" where
  "resolveAgentCoordinates e =
     (let database = trim (or_string (js_or (js_or (Some (getInput e ''agent-database''))
                                                   (env e ''AGENT_DATABASE''))
                                            (env e ''SNOWFLAKE_DATABASE'')) []);
          schema = trim (or_string (js_or (js_or (Some (getInput e ''agent-schema''))
                                                 (env e ''AGENT_SCHEMA''))
                                          (env e ''SNOWFLAKE_SCHEMA'')) []);
          agentName = trim (or_string (js_or (Some (getInput e ''agent-name''))
                                             (env e ''AGENT_NAME'')) [])
      in if database = [] then
           Inl (Error (js ''Provide `agent-database` or set AGENT_DATABASE/SNOWFLAKE_DATABASE.''))
         else if schema = [] then
           Inl (Error (js ''Provide `agent-schema` or set AGENT_SCHEMA/SNOWFLAKE_SCHEMA.''))
         else if agentName = [] then
           Inl (Error (js ''Provide `agent-name` or set AGENT_NAME.''))
         else Inr \<lparr>database = database, schema = schema, agentName = agentName\<rparr>)"

text \<open>
  \<^verbatim>\<open>new Error(prefix + err.message)\<close> in a \<^verbatim>\<open>catch\<close> block: the message of what was
  caught, after the prefix.
\<close>

fun rethrow :: "jsstring \<Rightarrow> error \<Rightarrow> error" where
  "rethrow prefix (Error message) = Error (prefix @ message)"
| "rethrow prefix SyntaxError = ErrorQuotingSyntaxError prefix"
| "rethrow prefix (ErrorQuotingSyntaxError p) = ErrorQuotingSyntaxError (prefix @ p)"
| "rethrow prefix (SystemError code) = Error (prefix @ js code)"
| "rethrow prefix TypeError = Error prefix"

text \<open>The second half of \<^verbatim>\<open>parseMessages\<close>: one user message around the single text.\<close>

definition singleMessage :: "jsstring option \<Rightarrow> error + jsval list" where
  "singleMessage fallbackMessage =
     (let single = trim (or_string fallbackMessage [])
      in if single = [] then
           Inl (Error (js ''Provide `message` input, AGENT_MESSAGE env, or a messages array.''))
         else Inr [JObj [(js ''role'', JStr (js ''user'')),
                         (js ''content'', JArr [JObj [(js ''type'', JStr (js ''text'')),
                                                      (js ''text'', JStr single)]])]])"

text \<open>The \<^verbatim>\<open>try\<close> block of \<^verbatim>\<open>parseMessages\<close>.\<close>

definition parseArray :: "jsstring \<Rightarrow> error + jsval list" where
  "parseArray rawMessages =
     (case JSON_parse rawMessages of
        Inl err \<Rightarrow> Inl err
      | Inr parsed \<Rightarrow>
          (case parsed of
             JArr items \<Rightarrow> Inr items
           | _ \<Rightarrow> Inl (Error (js ''messages must be a JSON array.''))))"

definition parseMessages :: "jsstring option \<Rightarrow> jsstring option \<Rightarrow> error + jsval list" where
  "parseMessages rawMessages fallbackMessage =
     (case rawMessages of
        None \<Rightarrow> singleMessage fallbackMessage
      | Some raw \<Rightarrow>
          if raw \<noteq> [] \<and> length (trim raw) > 0 then
            (case parseArray raw of
               Inl err \<Rightarrow> Inl (rethrow (js ''Invalid messages JSON: '') err)
             | Inr items \<Rightarrow> Inr items)
          else singleMessage fallbackMessage)"

definition parseOptionalInteger :: "jsstring option \<Rightarrow> error + jsnum option" where
  "parseOptionalInteger raw' =
     (case raw' of
        None \<Rightarrow> Inr None
      | Some raw \<Rightarrow>
          if raw = [] then Inr None
          else let trimmed = trim raw
               in if trimmed = [] then Inr None
                  else let num = Number trimmed
                       in if num = NaN then
                            Inl (Error (js ''Expected integer value, received: '' @ raw))
                          else Inr (Some (Math_floor num)))"

text \<open>\<^verbatim>\<open>typeof v === 'object'\<close>.\<close>

fun typeof_object :: "jsval \<Rightarrow> bool" where
  "typeof_object JNull = True"
| "typeof_object (JArr xs) = True"
| "typeof_object (JObj ps) = True"
| "typeof_object _ = False"

definition parseObject :: "jsstring \<Rightarrow> error + jsval" where
  "parseObject trimmed =
     (case JSON_parse trimmed of
        Inl err \<Rightarrow> Inl err
      | Inr parsed \<Rightarrow>
          if \<not> truthy parsed \<or> \<not> typeof_object parsed
          then Inl (Error (js ''tool-choice must be a JSON object.''))
          else Inr parsed)"

definition parseToolChoice :: "jsstring option \<Rightarrow> error + jsval" where
  "parseToolChoice raw' =
     (case raw' of
        None \<Rightarrow> Inr JUndefined
      | Some raw \<Rightarrow>
          if raw = [] then Inr JUndefined
          else let trimmed = trim raw
               in if trimmed = [] then Inr JUndefined
                  else if take 1 trimmed = js ''{'' then
                    (case parseObject trimmed of
                       Inl err \<Rightarrow> Inl (rethrow (js ''Invalid tool-choice JSON: '') err)
                     | Inr parsed \<Rightarrow> Inr parsed)
                  else Inr (JObj [(js ''type'', JStr trimmed)]))"

text \<open>
  What \<^verbatim>\<open>main\<close> hands to \<^verbatim>\<open>runCortexAgent\<close>, and the steps of \<^verbatim>\<open>main\<close> that
  build it, in their order; the first error ends the run. (The persistence flag and
  directory are read between these steps and the call; reading them throws nothing and
  they are no part of the request.)
\<close>

record request =
  coords :: coordinates
  messages :: "jsval list"
  threadId :: "jsnum option"
  parentMessageId :: "jsnum option"
  toolChoice :: jsval

definition normalizeInputs :: "environment \<Rightarrow> error + request" where
  "normalizeInputs e =
     (case resolveAgentCoordinates e of
        Inl err \<Rightarrow> Inl err
      | Inr c \<Rightarrow>
     (case parseMessages (js_or (Some (getInput e ''messages'')) (env e ''AGENT_MESSAGES''))
                         (js_or (Some (getInput e ''message'')) (env e ''AGENT_MESSAGE'')) of
        Inl err \<Rightarrow> Inl err
      | Inr ms \<Rightarrow>
     (case parseOptionalInteger
             (js_or (Some (getInput e ''thread-id'')) (env e ''AGENT_THREAD_ID'')) of
        Inl err \<Rightarrow> Inl err
      | Inr tid \<Rightarrow>
     (case parseOptionalInteger
             (js_or (Some (getInput e ''parent-message-id''))
                    (env e ''AGENT_PARENT_MESSAGE_ID'')) of
        Inl err \<Rightarrow> Inl err
      | Inr pid \<Rightarrow>
     (case parseToolChoice
             (js_or (Some (getInput e ''tool-choice'')) (env e ''AGENT_TOOL_CHOICE'')) of
        Inl err \<Rightarrow> Inl err
      | Inr tc \<Rightarrow>
          Inr \<lparr>coords = c, messages = ms, threadId = tid, parentMessageId = pid,
               toolChoice = tc\<rparr>)))))"

text \<open>
  The resolution of a coordinate in the words of the specification: the first source that
  is present (a non-empty string), the explicit input before the environment variables,
  or the empty string; then trimmed.
\<close>

fun first_present :: "jsstring option list \<Rightarrow> jsstring" where
  "first_present [] = []"
| "first_present (None # sources) = first_present sources"
| "first_present (Some s # sources) = (if s \<noteq> [] then s else first_present sources)"

definition database_sources :: "environment \<Rightarrow> jsstring option list" where
  "database_sources e =
     [Some (getInput e ''agent-database''), env e ''AGENT_DATABASE'', env e ''SNOWFLAKE_DATABASE'']"

definition schema_sources :: "environment \<Rightarrow> jsstring option list" where
  "schema_sources e =
     [Some (getInput e ''agent-schema''), env e ''AGENT_SCHEMA'', env e ''SNOWFLAKE_SCHEMA'']"

definition agentName_sources :: "environment \<Rightarrow> jsstring option list" where
  "agentName_sources e = [Some (getInput e ''agent-name''), env e ''AGENT_NAME'']"

text \<open>
  The raw messages string handed to \<^verbatim>\<open>parseMessages\<close>, and whether it is the one the
  messages are parsed from: it is there and not blank.
\<close>

definition raw_messages :: "environment \<Rightarrow> jsstring option" where
  "raw_messages e = js_or (Some (getInput e ''messages'')) (env e ''AGENT_MESSAGES'')"

definition uses_raw_messages :: "environment \<Rightarrow> bool" where
  "uses_raw_messages e = (case raw_messages e of None \<Rightarrow> False | Some raw \<Rightarrow> \<not> blank raw)"

section \<open>The result persister\<close>

text \<open>
  Paths are POSIX paths. \<^verbatim>\<open>path.resolve(dir)\<close> is \<open>dir\<close>, taken from the working directory
  when it is relative, without its empty and \<^verbatim>\<open>.\<close> segments and with each \<^verbatim>\<open>..\<close> taking
  the segment before it away; \<^verbatim>\<open>path.join\<close> of an absolute path and a name is the same
  on the two put together.
\<close>

fun splitSlash :: "jsstring \<Rightarrow> jsstring list" where
  "splitSlash [] = [] # []"
| "splitSlash (c # cs) =
     (if c = 0x2F then [] # splitSlash cs
      else (case splitSlash cs of seg # segs \<Rightarrow> (c # seg) # segs | [] \<Rightarrow> [c] # []))"

definition normalizeSegments :: "jsstring list \<Rightarrow> jsstring list" where
  "normalizeSegments segs =
     foldl (\<lambda>acc seg. if seg = [] \<or> seg = js ''.'' then acc
                        else if seg = js ''..'' then butlast acc
                        else acc @ [seg]) [] segs"

definition path_resolve :: "jsstring \<Rightarrow> jsstring \<Rightarrow> jsstring" where
  "path_resolve workdir dir =
     (let p = (if dir \<noteq> [] \<and> hd dir = 0x2F then dir else workdir @ [0x2F] @ dir)
      in 0x2F # join [0x2F] (normalizeSegments (splitSlash p)))"

definition path_join :: "jsstring \<Rightarrow> jsstring \<Rightarrow> jsstring" where
  "path_join a b =
     (let segs = normalizeSegments (splitSlash (a @ [0x2F] @ b))
      in 0x2F # join [0x2F] segs
           @ (if segs \<noteq> [] \<and> b \<noteq> [] \<and> last b = 0x2F then [0x2F] else []))"

text \<open>
  The file system, as far as the persister sees it. An entry of a directory is a regular
  file (its modification time in milliseconds, its contents, and whether it can be
  unlinked), a directory, or an entry that \<^verbatim>\<open>statSync\<close> fails on. A path leads to no file,
  to something that is no directory, or to a directory with its entries in the order
  \<^verbatim>\<open>readdirSync\<close> lists them.
\<close>

datatype node = File rat jsstring bool | Directory | Unreadable

type_synonym listing = "(jsstring \<times> node) list"

datatype place = Missing | NotADirectory | Dir listing

type_synonym filesystem = "jsstring \<Rightarrow> place"

text \<open>
  What the host gives to a run: the working directory, the reading of \<^verbatim>\<open>Date.now()\<close> in
  the sweep, and the reading of \<^verbatim>\<open>new Date()\<close> for the file name, with its local fields.
\<close>

record local_date =
  fullYear :: nat
  month :: nat
  date :: nat
  hours :: nat
  minutes :: nat
  seconds :: nat
  time :: int

record host =
  cwd :: jsstring
  Date_now :: int
  new_Date :: local_date

definition MAX_PERSIST_FILE_AGE_MS :: int where
  "MAX_PERSIST_FILE_AGE_MS = 24 * 60 * 60 * 1000"

text \<open>\<^verbatim>\<open>fs.mkdirSync(dir, { recursive: true })\<close>.\<close>

definition mkdirSync :: "filesystem \<Rightarrow> jsstring \<Rightarrow> error + filesystem" where
  "mkdirSync fs dir =
     (case fs dir of
        Missing \<Rightarrow> Inr (fs(dir := Dir []))
      | NotADirectory \<Rightarrow> Inl (SystemError ''EEXIST'')
      | Dir entries \<Rightarrow> Inr fs)"

definition statSync :: "listing \<Rightarrow> jsstring \<Rightarrow> error + node" where
  "statSync entries name =
     (case map_of entries name of
        None \<Rightarrow> Inl (SystemError ''ENOENT'')
      | Some Unreadable \<Rightarrow> Inl (SystemError ''EACCES'')
      | Some stats \<Rightarrow> Inr stats)"

definition unlinkSync :: "listing \<Rightarrow> jsstring \<Rightarrow> error + listing" where
  "unlinkSync entries name =
     (case map_of entries name of
        None \<Rightarrow> Inl (SystemError ''ENOENT'')
      | Some (File mtimeMs contents removable) \<Rightarrow>
          if removable then Inr (filter (\<lambda>(n, x). n \<noteq> name) entries)
          else Inl (SystemError ''EPERM'')
      | Some Directory \<Rightarrow> Inl (SystemError ''EISDIR'')
      | Some Unreadable \<Rightarrow> Inl (SystemError ''EACCES''))"

text \<open>
  The \<^verbatim>\<open>try\<close> block of the sweep, for one entry of the directory. The entry is looked
  up by its name in the directory, which is what \<^verbatim>\<open>path.join(dir, entry)\<close> leads to.
\<close>

definition sweepTry :: "int \<Rightarrow> int \<Rightarrow> listing \<Rightarrow> jsstring \<Rightarrow> error + listing" where
  "sweepTry now maxAgeMs entries entry =
     (case statSync entries entry of
        Inl err \<Rightarrow> Inl err
      | Inr stats \<Rightarrow>
          (case stats of
             File mtimeMs contents removable \<Rightarrow>
               if of_int now - mtimeMs > of_int maxAgeMs then unlinkSync entries entry
               else Inr entries
           | _ \<Rightarrow> Inr entries))"

text \<open>With its \<^verbatim>\<open>catch\<close>, which ignores the error: the directory stays as it was.\<close>

definition sweepEntry :: "int \<Rightarrow> int \<Rightarrow> listing \<Rightarrow> jsstring \<Rightarrow> listing" where
  "sweepEntry now maxAgeMs entries entry =
     (case sweepTry now maxAgeMs entries entry of
        Inl err \<Rightarrow> entries
      | Inr entries' \<Rightarrow> entries')"

definition cleanupPersistedFiles :: "host \<Rightarrow> filesystem \<Rightarrow> jsstring \<Rightarrow> int \<Rightarrow> error + filesystem" where
  "cleanupPersistedFiles h fs dir maxAgeMs =
     (case fs dir of
        Missing \<Rightarrow> Inr fs
      | NotADirectory \<Rightarrow> Inl (SystemError ''ENOTDIR'')
      | Dir entries \<Rightarrow>
          Inr (fs(dir := Dir (foldl (sweepEntry (Date_now h) maxAgeMs) entries (map fst entries)))))"

text \<open>
  \<^verbatim>\<open>fs.writeFileSync\<close> on the file \<open>name\<close> of the directory \<open>dir\<close>: a new file, or new
  contents for the file that is there.
\<close>

definition writeFileSync :: "filesystem \<Rightarrow> jsstring \<Rightarrow> jsstring \<Rightarrow> jsstring \<Rightarrow> rat
    \<Rightarrow> error + filesystem" where
  "writeFileSync fs dir name text mtimeMs =
     (case fs dir of
        Missing \<Rightarrow> Inl (SystemError ''ENOENT'')
      | NotADirectory \<Rightarrow> Inl (SystemError ''ENOTDIR'')
      | Dir entries \<Rightarrow>
          (case map_of entries name of
             None \<Rightarrow> Inr (fs(dir := Dir (entries @ [(name, File mtimeMs text True)])))
           | Some (File m c removable) \<Rightarrow>
               Inr (fs(dir := Dir (map (\<lambda>(n, x). if n = name then (n, File mtimeMs text removable)
                                                  else (n, x)) entries)))
           | Some Directory \<Rightarrow> Inl (SystemError ''EISDIR'')
           | Some Unreadable \<Rightarrow> Inl (SystemError ''EACCES'')))"

text \<open>\<^verbatim>\<open>String(n).padStart(2, '0')\<close>.\<close>

definition padStart2 :: "jsstring \<Rightarrow> jsstring" where
  "padStart2 s = replicate (2 - length s) 0x30 @ s"

definition datestamp :: "local_date \<Rightarrow> jsstring" where
  "datestamp now =
     String_nat (fullYear now) @ padStart2 (String_nat (month now + 1))
       @ padStart2 (String_nat (date now)) @ js ''-''
       @ padStart2 (String_nat (hours now)) @ padStart2 (String_nat (minutes now))
       @ padStart2 (String_nat (seconds now))"

definition fileName :: "local_date \<Rightarrow> jsstring" where
  "fileName now = js ''agent-result-'' @ datestamp now @ js ''-'' @ String_int (time now) @ js ''.json''"

text \<open>\<^verbatim>\<open>payload ?? {}\<close>.\<close>

fun orEmptyObject :: "jsval \<Rightarrow> jsval" where
  "orEmptyObject JUndefined = JObj []"
| "orEmptyObject JNull = JObj []"
| "orEmptyObject payload = payload"

definition persistResponse :: "host \<Rightarrow> filesystem \<Rightarrow> jsval \<Rightarrow> jsstring
    \<Rightarrow> error + (jsstring \<times> filesystem)" where
  "persistResponse h fs payload dir =
     (let resolvedDir = path_resolve (cwd h) dir
      in case mkdirSync fs resolvedDir of
           Inl err \<Rightarrow> Inl err
         | Inr fs1 \<Rightarrow>
        (case cleanupPersistedFiles h fs1 resolvedDir MAX_PERSIST_FILE_AGE_MS of
           Inl err \<Rightarrow> Inl err
         | Inr fs2 \<Rightarrow>
        (let now = new_Date h;
             filePath = path_join resolvedDir (fileName now)
         in case JSON_stringify (orEmptyObject payload) of
              None \<Rightarrow> Inl TypeError
            | Some text \<Rightarrow>
                (case writeFileSync fs2 resolvedDir (fileName now) text (of_int (time now)) of
                   Inl err \<Rightarrow> Inl err
                 | Inr fs3 \<Rightarrow> Inr (filePath, fs3)))))"

text \<open>
  When the sweep removes an entry: a regular file older than the window whose unlinking
  does not fail.
\<close>

definition swept_away :: "int \<Rightarrow> int \<Rightarrow> node \<Rightarrow> bool" where
  "swept_away now maxAgeMs x =
     (case x of
        File mtimeMs contents removable \<Rightarrow> of_int now - mtimeMs > of_int maxAgeMs \<and> removable
      | _ \<Rightarrow> False)"

text \<open>
  The name of the specification, \<^verbatim>\<open>agent-result-<YYYYMMDD>-<HHMMSS>-<epochMillis>.json\<close>,
  for a date: after the prefix come eight digits that read as the year, the month counted
  from 1 and the day, a hyphen, six digits that read as the hours, the minutes and the
  seconds, a hyphen, and digits that read as the milliseconds since the epoch. The digits
  are read with \<open>digitsValue\<close>, the reader of the number grammar.
\<close>

definition spec_file_name :: "local_date \<Rightarrow> jsstring \<Rightarrow> bool" where
  "spec_file_name now name \<longleftrightarrow>
     (let ymd = take 8 (drop 13 name);
          hms = take 6 (drop 22 name);
          millis = take (length name - 34) (drop 29 name)
      in name = js ''agent-result-'' @ ymd @ js ''-'' @ hms @ js ''-'' @ millis @ js ''.json'' \<and>
         length ymd = 8 \<and> length hms = 6 \<and> millis \<noteq> [] \<and>
         list_all isDigit ymd \<and> list_all isDigit hms \<and> list_all isDigit millis \<and>
         digitsValue 10 (take 4 ymd) = int (fullYear now) \<and>
         digitsValue 10 (take 2 (drop 4 ymd)) = int (month now) + 1 \<and>
         digitsValue 10 (drop 6 ymd) = int (date now) \<and>
         digitsValue 10 (take 2 hms) = int (hours now) \<and>
         digitsValue 10 (take 2 (drop 2 hms)) = int (minutes now) \<and>
         digitsValue 10 (drop 4 hms) = int (seconds now) \<and>
         digitsValue 10 millis = time now)"

text \<open>A date of four digits for the year, and the fields in their ranges.\<close>

definition plain_date :: "local_date \<Rightarrow> bool" where
  "plain_date now \<longleftrightarrow>
     1000 \<le> fullYear now \<and> fullYear now \<le> 9999 \<and> month now \<le> 11 \<and> date now \<le> 31 \<and>
     hours now \<le> 23 \<and> minutes now \<le> 59 \<and> seconds now \<le> 59 \<and> 0 \<le> time now"

text \<open>The two-space rendering of \<^verbatim>\<open>{"a":1}\<close>: three lines, the member indented.\<close>

definition pretty_a1 :: jsstring where
  "pretty_a1 = js ''{'' @ [0x0A] @ js ''  '' @ [0x22] @ js ''a'' @ [0x22] @ js '': 1'' @ [0x0A] @ js ''}''"

section \<open>The models of the built-ins on known values\<close>

text \<open>
  \<^verbatim>\<open>Number\<close> rounds to the nearest double: \<^verbatim>\<open>0.1\<close> is
  \<open>3602879701896397 / 2 ^ 55\<close>, \<^verbatim>\<open>9007199254740993\<close> (that is \<open>2 ^ 53 + 1\<close>) goes to the
  even neighbour.
\<close>

lemma Number_known_values:
  "Number (js ''0.1'') = Finite (3602879701896397 / 36028797018963968)"
  "Number (js ''9007199254740993'') = Finite 9007199254740992"
  "Number (js ''-Infinity'') = NegInfinity"
  "Number (js ''0x1F'') = Finite 31"
  "Number (js ''1. 5'') = NaN"
  "Number [] = Finite 0"
  by code_simp+

text \<open>
  \<^verbatim>\<open>JSON.parse\<close> on nested text, on a repeated key (the last value at the first place)
  and on text outside the grammar.
\<close>

lemma JSON_parse_known_values:
  "JSON_parse (js '' {a} '') = Inl SyntaxError"
  "JSON_parse (js ''[1, [true, null], {}]'')
     = Inr (JArr [JNum (Finite 1), JArr [JBool True, JNull], JObj []])"
  "JSON_parse (js ''[1,]'') = Inl SyntaxError"
  "JSON_parse (js ''01'') = Inl SyntaxError"
  "JSON_parse (js ''[] []'') = Inl SyntaxError"
  by code_simp+

lemma JSON_stringify_known_values:
  "JSON_stringify (JArr []) = Some (js ''[]'')"
  "JSON_stringify JUndefined = None"
  "JSON_stringify (JArr [JUndefined, JNum NaN]) =
     Some (js ''['' @ [0x0A] @ js ''  null,'' @ [0x0A] @ js ''  null'' @ [0x0A] @ js '']'')"
  by code_simp+

section \<open>Properties of the answer extractor\<close>

text \<open>
  A string is blank when it is empty or all white space; that is what the source tests
  with \<^verbatim>\<open>s.trim()\<close>.
\<close>

lemma trim_Nil_iff: "trim s = [] \<longleftrightarrow> blank s"
proof (cases "dropWhile isWhiteSpace s")
  case Nil
  then have "blank s"
    by (simp add: blank_def dropWhile_eq_Nil_conv list_all_iff)
  moreover have "trim s = []"
    by (simp add: trim_def Nil)
  ultimately show ?thesis by simp
next
  case (Cons a l)
  then have a: "\<not> isWhiteSpace a"
    using hd_dropWhile [of isWhiteSpace s] by simp
  have "a \<in> set s"
    using Cons set_dropWhileD [of a isWhiteSpace s] by simp
  with a have "\<not> blank s"
    by (auto simp: blank_def list_all_iff)
  moreover have "trim s \<noteq> []"
    using Cons a by (auto simp: trim_def dropWhile_eq_Nil_conv)
  ultimately show ?thesis by simp
qed

lemma extract_falsy: "\<not> truthy v \<Longrightarrow> extractAnswerText v = None"
  by (simp add: extractAnswerText.simps(1))

lemma extract_JStr: "extractAnswerText (JStr s) = (if trim s \<noteq> [] then Some s else None)"
  by (simp add: extractAnswerText.simps(1) trim_def)

lemma extract_JArr: "extractAnswerText (JArr items) = extract_items items"
  by (simp add: extractAnswerText.simps(1))

lemma extract_JObj:
  "extractAnswerText (JObj record) =
     (case content_text record of
        Some joined \<Rightarrow> Some joined
      | None \<Rightarrow>
         (case own_text record of
            Some t \<Rightarrow> Some t
          | None \<Rightarrow>
             (case (if truthy (get_field record ''response'')
                    then if_nested (extractAnswerText (get_field record ''response''))
                    else None) of
                Some nested \<Rightarrow> Some nested
              | None \<Rightarrow>
                 (if truthy (get_field record ''data'')
                  then if_nested (extractAnswerText (get_field record ''data''))
                  else None))))"
  by (simp add: extractAnswerText.simps(1))

lemma extract_other:
  "extractAnswerText JUndefined = None" "extractAnswerText JNull = None"
  "extractAnswerText (JBool b) = None" "extractAnswerText (JNum n) = None"
  by (simp_all add: extractAnswerText.simps(1))

lemma join_nonempty: "parts \<noteq> [] \<Longrightarrow> hd parts \<noteq> [] \<Longrightarrow> join sep parts \<noteq> []"
  by (induction sep parts rule: join.induct) auto

lemma textParts_Nil: "textParts [] = []"
  by (simp add: textParts_def)

lemma textParts_Cons:
  "textParts (entry # content) =
     (case entry_text entry of
        None \<Rightarrow> textParts content
      | Some s \<Rightarrow> if s \<noteq> [] then s # textParts content else textParts content)"
  by (cases "entry_text entry") (simp_all add: textParts_def)

lemma textParts_nonempty: "s \<in> set (textParts content) \<Longrightarrow> s \<noteq> []"
  by (induction content)
     (auto simp: textParts_Nil textParts_Cons split: option.splits if_splits)

lemma content_text_nonempty: "content_text record = Some s \<Longrightarrow> s \<noteq> []"
proof -
  assume a: "content_text record = Some s"
  then obtain content where c: "textParts content \<noteq> []" "s = join [0x0A] (textParts content)"
    by (auto simp: content_text_def split: jsval.splits if_splits)
  from c(1) have "hd (textParts content) \<noteq> []"
    using textParts_nonempty [of "hd (textParts content)" content] by simp
  with c show ?thesis by (simp add: join_nonempty)
qed

lemma own_text_nonempty: "own_text record = Some s \<Longrightarrow> s \<noteq> []"
  by (auto simp: own_text_def trim_def split: jsval.splits if_splits)

lemma if_nested_nonempty: "if_nested r = Some s \<Longrightarrow> s \<noteq> []"
  by (auto simp: if_nested_def split: option.splits if_splits)

text \<open>
  No result is the empty string: by induction along the recursion of the extractor.
\<close>

lemma extract_nonempty: "extractAnswerText v = Some s \<Longrightarrow> s \<noteq> []"
  and extract_items_nonempty: "extract_items vs = Some s \<Longrightarrow> s \<noteq> []"
proof (induction v and vs arbitrary: s and s rule: extractAnswerText_extract_items.induct)
  case (1 payload)
  show ?case
  proof (cases payload)
    case (JStr x) then show ?thesis using "1.prems" by (auto simp: extract_JStr trim_def split: if_splits)
  next
    case (JArr x) then show ?thesis using 1 by (auto simp: extract_JArr)
  next
    case (JObj r)
    then show ?thesis using 1
      by (auto simp: extract_JObj split: option.splits if_splits
               dest: content_text_nonempty own_text_nonempty if_nested_nonempty)
  qed (use "1.prems" in \<open>simp_all add: extract_other\<close>)
next
  case 2 then show ?case by simp
next
  case (3 item rest)
  then show ?case by (auto split: option.splits dest: if_nested_nonempty)
qed

lemmas eval_simps =
  extract_JObj extract_JStr extract_JArr extract_other content_text_def own_text_def
  get_field_def has_field_def js_def textParts_def if_nested_def trim_def isWhiteSpace_def
  blank_def

lemmas spec_simps =
  spec_found_texts_def spec_content_texts_def spec_text_def spec_nested_def

text \<open>
  The helpers of the source against the words of the specification: the callback of
  \<^verbatim>\<open>map\<close>, the filtered parts, the join, and the four checks of the object branch.
\<close>

lemma entry_text_spec: "entry_text element = spec_element_text element"
  by (cases element) (auto simp: get_field_def split: option.splits jsval.splits)

lemma textParts_spec:
  "textParts content = filter (\<lambda>s. s \<noteq> []) (spec_found_texts content)"
  by (induction content)
     (simp_all add: textParts_Nil textParts_Cons entry_text_spec spec_found_texts_def
        split: option.split)

lemma join_spec_lines: "join [0x0A] parts = spec_lines parts"
proof (induction parts)
  case Nil
  show ?case by simp
next
  case (Cons s rest)
  then show ?case by (cases rest) simp_all
qed

lemma content_text_spec:
  "content_text record =
     (if spec_content_texts record \<noteq> [] then Some (spec_lines (spec_content_texts record))
      else None)"
  by (auto simp: content_text_def spec_content_texts_def get_field_def textParts_spec
        join_spec_lines split: option.splits jsval.splits)

lemma own_text_spec: "own_text record = spec_text record"
  by (auto simp: own_text_def spec_text_def get_field_def trim_Nil_iff
        split: option.splits jsval.splits)

lemma nested_result:
  "(if truthy v then if_nested (extractAnswerText v) else None) = extractAnswerText v"
proof (cases "truthy v")
  case True
  then show ?thesis
    by (cases "extractAnswerText v") (auto simp: if_nested_def dest: extract_nonempty)
next
  case False
  then show ?thesis by (simp add: extract_falsy)
qed

lemma nested_spec: "extractAnswerText (get_field record k) = spec_nested record k"
  by (simp add: get_field_def spec_nested_def extract_other split: option.splits)

lemma extract_object_first:
  "extractAnswerText (JObj record) =
     (case content_text record of
        Some joined \<Rightarrow> Some joined
      | None \<Rightarrow>
         (case own_text record of
            Some t \<Rightarrow> Some t
          | None \<Rightarrow>
             (case extractAnswerText (get_field record ''response'') of
                Some nested \<Rightarrow> Some nested
              | None \<Rightarrow> extractAnswerText (get_field record ''data''))))"
  unfolding extract_JObj nested_result by (rule refl)

lemma extract_object_spec: "extractAnswerText (JObj record) = spec_object_fall_through record"
  by (simp add: extract_object_first content_text_spec own_text_spec nested_spec
        spec_object_fall_through_def split: option.splits)

text \<open>
  Claim C2, amended. For every object whose \<^verbatim>\<open>content\<close> field is an array, take the
  \<^verbatim>\<open>text\<close> of each element that is an object with a string \<^verbatim>\<open>text\<close>, skip the other
  elements, and keep the found strings that are \<^emph>\<open>not empty\<close>: when at least one is
  kept, the result is the kept strings joined with newline, whatever the other fields of
  the object are (a sibling \<^verbatim>\<open>text\<close> included). In particular
  \<^verbatim>\<open>{content:[{text:"a"},{text:"b"}]}\<close> gives \<^verbatim>\<open>"a\nb"\<close>.
\<close>

theorem content_array_texts:
  "map_of record (js ''content'') = Some (JArr content) \<Longrightarrow>
     (filter (\<lambda>s. s \<noteq> []) (spec_found_texts content) \<noteq> [] \<longrightarrow>
        extractAnswerText (JObj record) =
          Some (spec_lines (filter (\<lambda>s. s \<noteq> []) (spec_found_texts content)))) \<and>
     extractAnswerText
       (JObj [(js ''content'', JArr [JObj [(js ''text'', JStr (js ''a''))],
                                     JObj [(js ''text'', JStr (js ''b''))]])])
       = Some (js ''a'' @ [0x0A] @ js ''b'')"
proof (intro conjI impI)
  assume "map_of record (js ''content'') = Some (JArr content)"
    and "filter (\<lambda>s. s \<noteq> []) (spec_found_texts content) \<noteq> []"
  then show "extractAnswerText (JObj record) =
          Some (spec_lines (filter (\<lambda>s. s \<noteq> []) (spec_found_texts content)))"
    by (simp add: extract_object_spec spec_object_fall_through_def spec_content_texts_def)
next
  show "extractAnswerText
       (JObj [(js ''content'', JArr [JObj [(js ''text'', JStr (js ''a''))],
                                     JObj [(js ''text'', JStr (js ''b''))]])])
       = Some (js ''a'' @ [0x0A] @ js ''b'')"
    by (simp add: eval_simps)
qed

text \<open>
  An object with other fields around \<^verbatim>\<open>content\<close>, a sibling \<^verbatim>\<open>text\<close> among them. The
  array holds objects with several fields, a number, \<^verbatim>\<open>null\<close>, a string, an array, an
  object whose \<^verbatim>\<open>text\<close> is a number, an object without \<^verbatim>\<open>text\<close> and an object with an
  empty \<^verbatim>\<open>text\<close>: the result is \<^verbatim>\<open>"a\nb"\<close>, from the two elements with a non-empty
  string \<^verbatim>\<open>text\<close>, not the sibling \<^verbatim>\<open>text\<close>.
\<close>

theorem content_array_texts_witness:
  "map_of [(js ''id'', JNum (Finite 7)),
           (js ''content'',
            JArr [JObj [(js ''type'', JStr (js ''text'')), (js ''text'', JStr (js ''a''))],
                  JNum (Finite 1), JNull, JStr (js ''s''), JArr [JStr (js ''n'')],
                  JObj [(js ''text'', JNum (Finite 5))], JObj [(js ''type'', JStr (js ''x''))],
                  JObj [(js ''text'', JStr [])],
                  JObj [(js ''text'', JStr (js ''b'')), (js ''more'', JBool True)]]),
           (js ''text'', JStr (js ''t'')), (js ''response'', JStr (js ''r''))]
      (js ''content'')
     = Some (JArr
          [JObj [(js ''type'', JStr (js ''text'')), (js ''text'', JStr (js ''a''))],
           JNum (Finite 1), JNull, JStr (js ''s''), JArr [JStr (js ''n'')],
           JObj [(js ''text'', JNum (Finite 5))], JObj [(js ''type'', JStr (js ''x''))],
           JObj [(js ''text'', JStr [])],
           JObj [(js ''text'', JStr (js ''b'')), (js ''more'', JBool True)]]) \<and>
   spec_found_texts
     [JObj [(js ''type'', JStr (js ''text'')), (js ''text'', JStr (js ''a''))],
      JNum (Finite 1), JNull, JStr (js ''s''), JArr [JStr (js ''n'')],
      JObj [(js ''text'', JNum (Finite 5))], JObj [(js ''type'', JStr (js ''x''))],
      JObj [(js ''text'', JStr [])],
      JObj [(js ''text'', JStr (js ''b'')), (js ''more'', JBool True)]]
     = [js ''a'', [], js ''b''] \<and>
   extractAnswerText
     (JObj [(js ''id'', JNum (Finite 7)),
            (js ''content'',
             JArr [JObj [(js ''type'', JStr (js ''text'')), (js ''text'', JStr (js ''a''))],
                   JNum (Finite 1), JNull, JStr (js ''s''), JArr [JStr (js ''n'')],
                   JObj [(js ''text'', JNum (Finite 5))], JObj [(js ''type'', JStr (js ''x''))],
                   JObj [(js ''text'', JStr [])],
                   JObj [(js ''text'', JStr (js ''b'')), (js ''more'', JBool True)]]),
            (js ''text'', JStr (js ''t'')), (js ''response'', JStr (js ''r''))])
     = Some (js ''a'' @ [0x0A] @ js ''b'')"
  using content_array_texts
    [of "[(js ''id'', JNum (Finite 7)),
           (js ''content'',
            JArr [JObj [(js ''type'', JStr (js ''text'')), (js ''text'', JStr (js ''a''))],
                  JNum (Finite 1), JNull, JStr (js ''s''), JArr [JStr (js ''n'')],
                  JObj [(js ''text'', JNum (Finite 5))], JObj [(js ''type'', JStr (js ''x''))],
                  JObj [(js ''text'', JStr [])],
                  JObj [(js ''text'', JStr (js ''b'')), (js ''more'', JBool True)]]),
           (js ''text'', JStr (js ''t'')), (js ''response'', JStr (js ''r''))]"
        "[JObj [(js ''type'', JStr (js ''text'')), (js ''text'', JStr (js ''a''))],
          JNum (Finite 1), JNull, JStr (js ''s''), JArr [JStr (js ''n'')],
          JObj [(js ''text'', JNum (Finite 5))], JObj [(js ''type'', JStr (js ''x''))],
          JObj [(js ''text'', JStr [])],
          JObj [(js ''text'', JStr (js ''b'')), (js ''more'', JBool True)]]"]
  by (simp add: spec_found_texts_def js_def)

text \<open>
  Claim C2 as stated: \<^emph>\<open>all\<close> the found text strings are collected and joined. An
  empty \<^verbatim>\<open>text\<close> is found and yet left out: \<^verbatim>\<open>{content:[{text:"a"},{text:""},{text:"b"}]}\<close>
  gives \<^verbatim>\<open>"a\nb"\<close>, and joining the three found strings gives \<^verbatim>\<open>"a\n\nb"\<close>.
\<close>

theorem collects_all_found_texts_counterexample:
  "map_of [(js ''content'', JArr [JObj [(js ''text'', JStr (js ''a''))],
                                  JObj [(js ''text'', JStr [])],
                                  JObj [(js ''text'', JStr (js ''b''))]])] (js ''content'')
     = Some (JArr [JObj [(js ''text'', JStr (js ''a''))], JObj [(js ''text'', JStr [])],
                   JObj [(js ''text'', JStr (js ''b''))]]) \<and>
   spec_found_texts [JObj [(js ''text'', JStr (js ''a''))], JObj [(js ''text'', JStr [])],
                     JObj [(js ''text'', JStr (js ''b''))]] = [js ''a'', [], js ''b''] \<and>
   extractAnswerText
     (JObj [(js ''content'', JArr [JObj [(js ''text'', JStr (js ''a''))],
                                   JObj [(js ''text'', JStr [])],
                                   JObj [(js ''text'', JStr (js ''b''))]])])
     = Some (js ''a'' @ [0x0A] @ js ''b'') \<and>
   spec_lines [js ''a'', [], js ''b''] = js ''a'' @ [0x0A, 0x0A] @ js ''b'' \<and>
   extractAnswerText
     (JObj [(js ''content'', JArr [JObj [(js ''text'', JStr (js ''a''))],
                                   JObj [(js ''text'', JStr [])],
                                   JObj [(js ''text'', JStr (js ''b''))]])])
     \<noteq> Some (spec_lines
         (spec_found_texts [JObj [(js ''text'', JStr (js ''a''))], JObj [(js ''text'', JStr [])],
                            JObj [(js ''text'', JStr (js ''b''))]]))"
  by (simp add: eval_simps spec_found_texts_def)

text \<open>
  Claim C3, amended. The checks of the object branch are tried in order and each one
  that yields nothing falls through to the next. When the \<^verbatim>\<open>content\<close> array yields at
  least one non-empty text, the joined texts are returned, whatever \<^verbatim>\<open>text\<close>,
  \<^verbatim>\<open>response\<close> and \<^verbatim>\<open>data\<close> are. Otherwise, also when \<^verbatim>\<open>content\<close> is an array that
  yields no text, a \<^verbatim>\<open>text\<close> that is a string and not blank is returned as it is.
  Otherwise what the extractor finds in the \<^verbatim>\<open>response\<close> field is returned; and when
  there is no \<^verbatim>\<open>response\<close> field, or nothing is found in it, the result is what is found
  in the \<^verbatim>\<open>data\<close> field, nothing if there is none.
\<close>

theorem extract_object_fall_through:
  "extractAnswerText (JObj record) = spec_object_fall_through record \<and>
   (spec_content_texts record \<noteq> [] \<longrightarrow>
      extractAnswerText (JObj record) = Some (spec_lines (spec_content_texts record))) \<and>
   (spec_content_texts record = [] \<and> map_of record (js ''text'') = Some (JStr t) \<and> \<not> blank t
      \<longrightarrow> extractAnswerText (JObj record) = Some t) \<and>
   (spec_content_texts record = [] \<and> spec_text record = None \<and>
    map_of record (js ''response'') = Some r \<and> extractAnswerText r = Some s
      \<longrightarrow> extractAnswerText (JObj record) = Some s) \<and>
   (spec_content_texts record = [] \<and> spec_text record = None \<and>
    spec_nested record ''response'' = None
      \<longrightarrow> extractAnswerText (JObj record) = spec_nested record ''data'')"
  by (auto simp: extract_object_spec spec_object_fall_through_def spec_text_def spec_nested_def)

text \<open>
  Four objects: \<^verbatim>\<open>content\<close> yields a text beside a \<^verbatim>\<open>text\<close> and a \<^verbatim>\<open>response\<close>; an empty
  \<^verbatim>\<open>content\<close> array beside a \<^verbatim>\<open>text\<close>; a blank \<^verbatim>\<open>text\<close> beside a \<^verbatim>\<open>response\<close> that yields
  and a \<^verbatim>\<open>data\<close>; a \<^verbatim>\<open>response\<close> that yields nothing beside a \<^verbatim>\<open>data\<close>.
\<close>

theorem extract_object_fall_through_witness:
  "spec_content_texts
       [(js ''content'', JArr [JObj [(js ''type'', JStr (js ''text'')),
                                     (js ''text'', JStr (js ''a''))]]),
        (js ''text'', JStr (js ''t'')), (js ''response'', JStr (js ''r''))]
     = [js ''a''] \<and>
   extractAnswerText
     (JObj [(js ''content'', JArr [JObj [(js ''type'', JStr (js ''text'')),
                                     (js ''text'', JStr (js ''a''))]]),
        (js ''text'', JStr (js ''t'')), (js ''response'', JStr (js ''r''))])
     = Some (js ''a'') \<and>
   spec_content_texts
       [(js ''content'', JArr [JObj [(js ''text'', JStr [])], JNull]),
        (js ''text'', JStr (js ''t'')), (js ''response'', JStr (js ''r''))]
     = [] \<and>
   extractAnswerText
     (JObj [(js ''content'', JArr [JObj [(js ''text'', JStr [])], JNull]),
        (js ''text'', JStr (js ''t'')), (js ''response'', JStr (js ''r''))])
     = Some (js ''t'') \<and>
   spec_content_texts
       [(js ''text'', JStr (js '' '')),
        (js ''response'', JObj [(js ''text'', JStr (js ''r''))]),
        (js ''data'', JStr (js ''d''))]
     = [] \<and>
   spec_text
       [(js ''text'', JStr (js '' '')),
        (js ''response'', JObj [(js ''text'', JStr (js ''r''))]),
        (js ''data'', JStr (js ''d''))]
     = None \<and>
   extractAnswerText
     (JObj [(js ''text'', JStr (js '' '')),
        (js ''response'', JObj [(js ''text'', JStr (js ''r''))]),
        (js ''data'', JStr (js ''d''))])
     = Some (js ''r'') \<and>
   spec_content_texts
       [(js ''response'', JObj [(js ''text'', JStr [])]),
        (js ''data'', JArr [JNull, JStr (js ''d'')])]
     = [] \<and>
   spec_text
       [(js ''response'', JObj [(js ''text'', JStr [])]),
        (js ''data'', JArr [JNull, JStr (js ''d'')])]
     = None \<and>
   spec_nested
       [(js ''response'', JObj [(js ''text'', JStr [])]),
        (js ''data'', JArr [JNull, JStr (js ''d'')])]
       ''response''
     = None \<and>
   extractAnswerText
     (JObj [(js ''response'', JObj [(js ''text'', JStr [])]),
        (js ''data'', JArr [JNull, JStr (js ''d'')])])
     = Some (js ''d'')"
proof -
  let ?R1 = "[(js ''content'', JArr [JObj [(js ''type'', JStr (js ''text'')),
                                         (js ''text'', JStr (js ''a''))]]),
            (js ''text'', JStr (js ''t'')), (js ''response'', JStr (js ''r''))]"
  let ?R2 = "[(js ''content'', JArr [JObj [(js ''text'', JStr [])], JNull]),
            (js ''text'', JStr (js ''t'')), (js ''response'', JStr (js ''r''))]"
  let ?R3 = "[(js ''text'', JStr (js '' '')),
            (js ''response'', JObj [(js ''text'', JStr (js ''r''))]),
            (js ''data'', JStr (js ''d''))]"
  let ?R4 = "[(js ''response'', JObj [(js ''text'', JStr [])]),
            (js ''data'', JArr [JNull, JStr (js ''d'')])]"
  have inner:
    "extractAnswerText (JObj [(js ''text'', JStr (js ''r''))]) = Some (js ''r'')"
    "extractAnswerText (JObj [(js ''text'', JStr [])]) = None"
    "extractAnswerText (JArr [JNull, JStr (js ''d'')]) = Some (js ''d'')"
    by (simp_all add: eval_simps)
  have c1: "spec_content_texts ?R1 = [js ''a'']"
    by (simp add: spec_simps js_def)
  have r1: "extractAnswerText (JObj ?R1) = Some (js ''a'')"
    using extract_object_fall_through [of ?R1, THEN conjunct2, THEN conjunct1] c1 by simp
  have c2: "spec_content_texts ?R2 = []" "map_of ?R2 (js ''text'') = Some (JStr (js ''t''))"
    "\<not> blank (js ''t'')"
    by (simp_all add: spec_simps js_def blank_def isWhiteSpace_def)
  have r2: "extractAnswerText (JObj ?R2) = Some (js ''t'')"
    using extract_object_fall_through
      [of ?R2 "js ''t''", THEN conjunct2, THEN conjunct2, THEN conjunct1] c2
    by simp
  have c3: "spec_content_texts ?R3 = []" "spec_text ?R3 = None"
    "map_of ?R3 (js ''response'') = Some (JObj [(js ''text'', JStr (js ''r''))])"
    by (simp_all add: spec_simps js_def blank_def isWhiteSpace_def)
  have r3: "extractAnswerText (JObj ?R3) = Some (js ''r'')"
    using extract_object_fall_through
      [of ?R3 _ "JObj [(js ''text'', JStr (js ''r''))]" "js ''r''",
        THEN conjunct2, THEN conjunct2, THEN conjunct2, THEN conjunct1] c3 inner(1)
    by simp
  have n4: "map_of ?R4 (js ''response'') = Some (JObj [(js ''text'', JStr [])])"
    "map_of ?R4 (js ''data'') = Some (JArr [JNull, JStr (js ''d'')])"
    by (simp_all add: js_def)
  have c4: "spec_content_texts ?R4 = []" "spec_text ?R4 = None"
    by (simp_all add: spec_simps js_def)
  have s4: "spec_nested ?R4 ''response'' = None" "spec_nested ?R4 ''data'' = Some (js ''d'')"
    by (simp_all only: spec_nested_def n4 option.case inner)
  have r4: "extractAnswerText (JObj ?R4) = Some (js ''d'')"
    using extract_object_fall_through
      [of ?R4, THEN conjunct2, THEN conjunct2, THEN conjunct2, THEN conjunct2] c4 s4
    by simp
  from c1 r1 c2(1) r2 c3(1,2) r3 c4 s4(1) r4 show ?thesis by (simp only: simp_thms)
qed

text \<open>
  Claim C3 as stated: a strict else-if chain, \<open>extract_object_strict\<close>. It differs from
  the source on \<^verbatim>\<open>{content:[], text:"x"}\<close>, where the source goes on to \<^verbatim>\<open>text\<close>, and on
  \<^verbatim>\<open>{response:{}, data:{text:"x"}}\<close>, where the source goes on to \<^verbatim>\<open>data\<close>.
\<close>

theorem strict_else_if_counterexample:
  "extractAnswerText (JObj [(js ''content'', JArr []), (js ''text'', JStr (js ''x''))])
     = Some (js ''x'') \<and>
   extract_object_strict [(js ''content'', JArr []), (js ''text'', JStr (js ''x''))] = None \<and>
   extractAnswerText (JObj [(js ''response'', JObj []),
                            (js ''data'', JObj [(js ''text'', JStr (js ''x''))])])
     = Some (js ''x'') \<and>
   extract_object_strict [(js ''response'', JObj []),
                          (js ''data'', JObj [(js ''text'', JStr (js ''x''))])] = None"
  by (simp add: eval_simps extract_object_strict_def spec_simps)

text \<open>
  Claim C8. A blank string gives no answer and a string that is not blank gives itself;
  an object whose \<^verbatim>\<open>text\<close> is a blank string, and whose other branches yield nothing,
  gives no answer; in particular \<^verbatim>\<open>{text:""}\<close> gives none.
\<close>

theorem blank_is_no_answer:
  "(blank s \<longrightarrow> extractAnswerText (JStr s) = None) \<and>
   (\<not> blank s \<longrightarrow> extractAnswerText (JStr s) = Some s) \<and>
   (get_field record ''text'' = JStr t \<and> blank t \<and> content_text record = None \<and>
    extractAnswerText (get_field record ''response'') = None \<and>
    extractAnswerText (get_field record ''data'') = None
      \<longrightarrow> extractAnswerText (JObj record) = None) \<and>
   extractAnswerText (JObj [(js ''text'', JStr [])]) = None"
proof (intro conjI impI)
  show "extractAnswerText (JObj [(js ''text'', JStr [])]) = None"
    by (simp add: eval_simps)
next
  assume "get_field record ''text'' = JStr t \<and> blank t \<and> content_text record = None \<and>
    extractAnswerText (get_field record ''response'') = None \<and>
    extractAnswerText (get_field record ''data'') = None"
  then show "extractAnswerText (JObj record) = None"
    by (simp add: extract_JObj nested_result own_text_def trim_Nil_iff)
qed (simp_all add: extract_JStr trim_Nil_iff)

text \<open>
  Instances: a string of a space, a tab and a no-break space; \<^verbatim>\<open>" hi "\<close>; and an object
  with a blank \<^verbatim>\<open>text\<close>.
\<close>

theorem blank_is_no_answer_witness:
  "blank [0x20, 0x09, 0xA0] \<and> extractAnswerText (JStr [0x20, 0x09, 0xA0]) = None \<and>
   \<not> blank (js '' hi '') \<and> extractAnswerText (JStr (js '' hi '')) = Some (js '' hi '') \<and>
   extractAnswerText (JObj [(js ''text'', JStr (js ''  '')), (js ''response'', JNull),
                            (js ''data'', JArr [JStr []])]) = None"
  using blank_is_no_answer [of "[0x20, 0x09, 0xA0]"]
        blank_is_no_answer [of "js '' hi ''"]
        blank_is_no_answer [of _ "[(js ''text'', JStr (js ''  '')), (js ''response'', JNull),
                            (js ''data'', JArr [JStr []])]" "js ''  ''"]
  by (simp add: blank_def isWhiteSpace_def js_def get_field_def content_text_def
        extract_other extract_JArr extract_JStr if_nested_def trim_def)

text \<open>
  Claim C9. A returned string is never empty (its length is at least 1), but it may be
  blank: the texts of a \<^verbatim>\<open>content\<close> array are kept when their length is positive, so
  \<^verbatim>\<open>{content:[{text:" "}]}\<close> gives \<^verbatim>\<open>" "\<close>.
\<close>

theorem never_empty_but_maybe_blank:
  "(extractAnswerText v = Some s \<longrightarrow> 1 \<le> length s) \<and>
   extractAnswerText (JObj [(js ''content'', JArr [JObj [(js ''text'', JStr (js '' ''))]])])
     = Some (js '' '') \<and>
   blank (js '' '')"
proof (intro conjI impI)
  assume "extractAnswerText v = Some s"
  then have "s \<noteq> []" by (rule extract_nonempty)
  then show "1 \<le> length s" by (cases s) simp_all
qed (simp_all add: eval_simps)

text \<open>
  An array whose first usable element is \<^verbatim>\<open>"ok"\<close>.
\<close>

theorem never_empty_but_maybe_blank_witness:
  "extractAnswerText (JArr [JNull, JStr [], JStr (js ''ok'')]) = Some (js ''ok'') \<and>
   1 \<le> length (js ''ok'')"
  using never_empty_but_maybe_blank [of "JArr [JNull, JStr [], JStr (js ''ok'')]" "js ''ok''"]
  by (simp add: eval_simps)

section \<open>Properties of the input normalization\<close>

lemma blank_Nil: "blank []"
  by (simp add: blank_def)

lemma or_string_js_or: "or_string (js_or a b) d = or_string a (or_string b d)"
  by (simp add: or_string_def js_or_def split: option.splits)

lemma first_present_database:
  "or_string (js_or (js_or (Some x) y) z) [] = first_present [Some x, y, z]"
  by (cases y; cases z) (simp_all add: or_string_def js_or_def)

lemma first_present_agentName:
  "or_string (js_or (Some x) y) [] = first_present [Some x, y]"
  by (cases y) (simp_all add: or_string_def js_or_def)

lemma resolve_spec:
  "resolveAgentCoordinates e =
     (if blank (first_present (database_sources e)) then
        Inl (Error (js ''Provide `agent-database` or set AGENT_DATABASE/SNOWFLAKE_DATABASE.''))
      else if blank (first_present (schema_sources e)) then
        Inl (Error (js ''Provide `agent-schema` or set AGENT_SCHEMA/SNOWFLAKE_SCHEMA.''))
      else if blank (first_present (agentName_sources e)) then
        Inl (Error (js ''Provide `agent-name` or set AGENT_NAME.''))
      else Inr \<lparr>database = trim (first_present (database_sources e)),
                schema = trim (first_present (schema_sources e)),
                agentName = trim (first_present (agentName_sources e))\<rparr>)"
  unfolding resolveAgentCoordinates_def Let_def first_present_database first_present_agentName
    trim_Nil_iff database_sources_def schema_sources_def agentName_sources_def
  by (rule refl)

lemma normalize_coords_error:
  "resolveAgentCoordinates e = Inl err \<Longrightarrow> normalizeInputs e = Inl err"
  by (simp add: normalizeInputs_def)

text \<open>
  Claim C6. Each coordinate is the first present source (the explicit input, then the
  environment variable, then, for the database and the schema, the second variable),
  trimmed. An explicit input that is not empty is that source, whatever the environment
  holds. When a coordinate is blank after all fallbacks, normalization fails with the
  message that names it (the first such coordinate in the order database, schema, agent
  name); when none is, the three coordinates are returned.
\<close>

theorem coordinates_resolution:
  "(resolveAgentCoordinates e = Inr c \<longrightarrow>
      database c = trim (first_present (database_sources e)) \<and>
      schema c = trim (first_present (schema_sources e)) \<and>
      agentName c = trim (first_present (agentName_sources e))) \<and>
   (getInput e ''agent-database'' \<noteq> [] \<longrightarrow>
      first_present (database_sources e) = getInput e ''agent-database'') \<and>
   (getInput e ''agent-schema'' \<noteq> [] \<longrightarrow>
      first_present (schema_sources e) = getInput e ''agent-schema'') \<and>
   (getInput e ''agent-name'' \<noteq> [] \<longrightarrow>
      first_present (agentName_sources e) = getInput e ''agent-name'') \<and>
   (blank (first_present (database_sources e)) \<longrightarrow>
      normalizeInputs e =
        Inl (Error (js ''Provide `agent-database` or set AGENT_DATABASE/SNOWFLAKE_DATABASE.''))) \<and>
   (\<not> blank (first_present (database_sources e)) \<and> blank (first_present (schema_sources e)) \<longrightarrow>
      normalizeInputs e =
        Inl (Error (js ''Provide `agent-schema` or set AGENT_SCHEMA/SNOWFLAKE_SCHEMA.''))) \<and>
   (\<not> blank (first_present (database_sources e)) \<and> \<not> blank (first_present (schema_sources e)) \<and>
    blank (first_present (agentName_sources e)) \<longrightarrow>
      normalizeInputs e = Inl (Error (js ''Provide `agent-name` or set AGENT_NAME.''))) \<and>
   (\<not> blank (first_present (database_sources e)) \<and> \<not> blank (first_present (schema_sources e)) \<and>
    \<not> blank (first_present (agentName_sources e)) \<longrightarrow>
      resolveAgentCoordinates e =
        Inr \<lparr>database = trim (first_present (database_sources e)),
             schema = trim (first_present (schema_sources e)),
             agentName = trim (first_present (agentName_sources e))\<rparr>)"
proof -
  have db: "blank (first_present (database_sources e)) \<Longrightarrow> normalizeInputs e =
        Inl (Error (js ''Provide `agent-database` or set AGENT_DATABASE/SNOWFLAKE_DATABASE.''))"
    by (rule normalize_coords_error) (simp add: resolve_spec)
  have sc: "\<not> blank (first_present (database_sources e)) \<Longrightarrow>
      blank (first_present (schema_sources e)) \<Longrightarrow> normalizeInputs e =
        Inl (Error (js ''Provide `agent-schema` or set AGENT_SCHEMA/SNOWFLAKE_SCHEMA.''))"
    by (rule normalize_coords_error) (simp add: resolve_spec)
  have ag: "\<not> blank (first_present (database_sources e)) \<Longrightarrow>
      \<not> blank (first_present (schema_sources e)) \<Longrightarrow>
      blank (first_present (agentName_sources e)) \<Longrightarrow> normalizeInputs e =
        Inl (Error (js ''Provide `agent-name` or set AGENT_NAME.''))"
    by (rule normalize_coords_error) (simp add: resolve_spec)
  have ok: "resolveAgentCoordinates e = Inr c \<Longrightarrow>
      database c = trim (first_present (database_sources e)) \<and>
      schema c = trim (first_present (schema_sources e)) \<and>
      agentName c = trim (first_present (agentName_sources e))"
    by (auto simp: resolve_spec split: if_splits)
  show ?thesis
    using db sc ag ok
    by (auto simp: database_sources_def schema_sources_def agentName_sources_def resolve_spec)
qed

text \<open>
  Four runs: an explicit database over \<^verbatim>\<open>AGENT_DATABASE\<close> with the schema from
  \<^verbatim>\<open>SNOWFLAKE_SCHEMA\<close>; an agent name of two spaces; a schema of one space; nothing set.
\<close>

theorem coordinates_resolution_witness:
  "resolveAgentCoordinates
     \<lparr>getInput = (\<lambda>_. [])(''agent-database'' := js '' DB ''),
      env = (\<lambda>_. None)(''AGENT_DATABASE'' := Some (js ''ENVDB''),
                         ''SNOWFLAKE_SCHEMA'' := Some (js ''S''),
                         ''AGENT_NAME'' := Some (js ''A''))\<rparr>
     = Inr \<lparr>database = js ''DB'', schema = js ''S'', agentName = js ''A''\<rparr> \<and>
   normalizeInputs
     \<lparr>getInput = (\<lambda>_. [])(''agent-database'' := js ''DB'', ''agent-schema'' := js ''S'',
                              ''agent-name'' := js ''  ''),
      env = (\<lambda>_. None)(''AGENT_NAME'' := Some (js ''A''))\<rparr>
     = Inl (Error (js ''Provide `agent-name` or set AGENT_NAME.'')) \<and>
   normalizeInputs
     \<lparr>getInput = (\<lambda>_. []),
      env = (\<lambda>_. None)(''AGENT_DATABASE'' := Some (js ''D''), ''AGENT_SCHEMA'' := Some [0x20])\<rparr>
     = Inl (Error (js ''Provide `agent-schema` or set AGENT_SCHEMA/SNOWFLAKE_SCHEMA.'')) \<and>
   normalizeInputs \<lparr>getInput = (\<lambda>_. []), env = (\<lambda>_. None)\<rparr>
     = Inl (Error (js ''Provide `agent-database` or set AGENT_DATABASE/SNOWFLAKE_DATABASE.''))"
  using
    coordinates_resolution
      [of "\<lparr>getInput = (\<lambda>_. [])(''agent-database'' := js '' DB ''),
            env = (\<lambda>_. None)(''AGENT_DATABASE'' := Some (js ''ENVDB''),
                         ''SNOWFLAKE_SCHEMA'' := Some (js ''S''),
                         ''AGENT_NAME'' := Some (js ''A''))\<rparr>"]
    coordinates_resolution
      [of "\<lparr>getInput = (\<lambda>_. [])(''agent-database'' := js ''DB'', ''agent-schema'' := js ''S'',
                              ''agent-name'' := js ''  ''),
            env = (\<lambda>_. None)(''AGENT_NAME'' := Some (js ''A''))\<rparr>"]
    coordinates_resolution
      [of "\<lparr>getInput = (\<lambda>_. []),
      env = (\<lambda>_. None)(''AGENT_DATABASE'' := Some (js ''D''), ''AGENT_SCHEMA'' := Some [0x20])\<rparr>"]
    coordinates_resolution [of "\<lparr>getInput = (\<lambda>_. []), env = (\<lambda>_. None)\<rparr>"]
  by (auto simp: database_sources_def schema_sources_def agentName_sources_def blank_def
        isWhiteSpace_def js_def trim_def)

lemma whitespace_starts_no_token:
  "isWhiteSpace c \<Longrightarrow>
     c \<noteq> 0x7B \<and> c \<noteq> 0x7D \<and> c \<noteq> 0x5B \<and> c \<noteq> 0x5D \<and> c \<noteq> 0x3A \<and> c \<noteq> 0x2C \<and>
     c \<noteq> 0x22 \<and> c \<noteq> 0x2D \<and> \<not> isDigit c \<and> c \<noteq> 0x74 \<and> c \<noteq> 0x66 \<and> c \<noteq> 0x6E"
proof -
  assume ws: "isWhiteSpace c"
  have "\<not> (0x2000 \<le> c \<and> c \<le> 0x39)"
    using order_trans [of "0x2000" c "0x39"] by auto
  with ws show ?thesis
    by (auto simp: isWhiteSpace_def isDigit_def)
qed

lemma tokenize_blank: "blank s \<Longrightarrow> tokenize s = Some [] \<or> tokenize s = None"
proof (induction s)
  case Nil
  then show ?case by simp
next
  case (Cons c cs)
  then have ws: "isWhiteSpace c" and IH: "tokenize cs = Some [] \<or> tokenize cs = None"
    by (simp_all add: blank_def)
  show ?case
  proof (cases "isJsonWhiteSpace c")
    case True
    with IH show ?thesis by simp
  next
    case False
    with whitespace_starts_no_token [OF ws] have "tokenize (c # cs) = None"
      by (simp add: js_def)
    then show ?thesis by simp
  qed
qed

lemma JSON_parse_not_blank: "JSON_parse raw = Inr v \<Longrightarrow> \<not> blank raw"
proof
  assume p: "JSON_parse raw = Inr v" and "blank raw"
  from \<open>blank raw\<close> have "tokenize raw = Some [] \<or> tokenize raw = None" by (rule tokenize_blank)
  with p show False by (auto simp: JSON_parse_def)
qed

lemma not_blank_not_Nil: "\<not> blank raw \<Longrightarrow> raw \<noteq> []"
  by (auto simp: blank_def)

lemma parseMessages_raw:
  "\<not> blank raw \<Longrightarrow>
     parseMessages (Some raw) fallbackMessage =
       (case parseArray raw of
          Inl err \<Rightarrow> Inl (rethrow (js ''Invalid messages JSON: '') err)
        | Inr items \<Rightarrow> Inr items)"
  by (simp add: parseMessages_def trim_Nil_iff not_blank_not_Nil)

lemma parseMessages_fallback:
  "(case raw' of None \<Rightarrow> True | Some raw \<Rightarrow> blank raw) \<Longrightarrow>
     parseMessages raw' fallbackMessage = singleMessage fallbackMessage"
  by (auto simp: parseMessages_def trim_Nil_iff split: option.splits)

lemma parseArray_Inr: "parseArray raw = Inr items \<longleftrightarrow> JSON_parse raw = Inr (JArr items)"
  by (auto simp: parseArray_def split: sum.splits jsval.splits)

text \<open>
  Claim C10. A string that \<^verbatim>\<open>JSON.parse\<close> reads as an array is returned as the message
  list, element for element, whatever the elements are and whatever the fallback message
  is.
\<close>

theorem parsed_array_unchanged:
  "JSON_parse raw = Inr (JArr items) \<Longrightarrow> parseMessages (Some raw) fallbackMessage = Inr items"
proof -
  assume p: "JSON_parse raw = Inr (JArr items)"
  then have "\<not> blank raw" by (rule JSON_parse_not_blank)
  moreover from p have "parseArray raw = Inr items" by (simp add: parseArray_Inr)
  ultimately show ?thesis by (simp add: parseMessages_raw)
qed

lemma parse_example: "JSON_parse (js ''[1, {}, null]'') = Inr (JArr [JNum (Finite 1), JObj [], JNull])"
  by code_simp

text \<open>
  \<^verbatim>\<open>[1, {}, null]\<close>: no element is a message, and all three are returned.
\<close>

theorem parsed_array_unchanged_witness:
  "JSON_parse (js ''[1, {}, null]'') = Inr (JArr [JNum (Finite 1), JObj [], JNull]) \<and>
   parseMessages (Some (js ''[1, {}, null]'')) None = Inr [JNum (Finite 1), JObj [], JNull]"
  using parsed_array_unchanged [OF parse_example, of None] parse_example by simp

lemma resolve_nonempty:
  "resolveAgentCoordinates e = Inr c \<Longrightarrow> database c \<noteq> [] \<and> schema c \<noteq> [] \<and> agentName c \<noteq> []"
  by (auto simp: resolveAgentCoordinates_def Let_def split: if_splits)

lemma singleMessage_length: "singleMessage fallbackMessage = Inr items \<Longrightarrow> length items = 1"
  by (auto simp: singleMessage_def Let_def split: if_splits)

lemma normalize_Inr:
  "normalizeInputs e = Inr r \<Longrightarrow>
     resolveAgentCoordinates e = Inr (coords r) \<and>
     parseMessages (raw_messages e)
       (js_or (Some (getInput e ''message'')) (env e ''AGENT_MESSAGE'')) = Inr (messages r)"
  by (auto simp: normalizeInputs_def raw_messages_def split: sum.splits)

text \<open>
  Claim C1, amended. After a successful normalization each coordinate is a non-empty
  string. The messages are one message when they are built from the single message; when
  a raw messages string that is not blank is supplied they are the array it parses to,
  which may be empty.
\<close>

theorem request_invariant:
  "normalizeInputs e = Inr r \<Longrightarrow>
     database (coords r) \<noteq> [] \<and> schema (coords r) \<noteq> [] \<and> agentName (coords r) \<noteq> [] \<and>
     (if uses_raw_messages e
      then JSON_parse (or_string (raw_messages e) []) = Inr (JArr (messages r))
      else length (messages r) = 1)"
proof -
  assume n: "normalizeInputs e = Inr r"
  note c = normalize_Inr [OF n, THEN conjunct1] and m = normalize_Inr [OF n, THEN conjunct2]
  show ?thesis
  proof (cases "uses_raw_messages e")
    case True
    then obtain raw where raw: "raw_messages e = Some raw" "\<not> blank raw"
      by (auto simp: uses_raw_messages_def split: option.splits)
    with m have "parseArray raw = Inr (messages r)"
      by (simp add: parseMessages_raw split: sum.splits)
    with raw True resolve_nonempty [OF c] show ?thesis
      by (simp add: parseArray_Inr or_string_def not_blank_not_Nil)
  next
    case False
    then have "(case raw_messages e of None \<Rightarrow> True | Some raw \<Rightarrow> blank raw)"
      by (auto simp: uses_raw_messages_def split: option.splits)
    with m have "length (messages r) = 1"
      by (simp add: parseMessages_fallback singleMessage_length)
    with False resolve_nonempty [OF c] show ?thesis
      by simp
  qed
qed

lemma js_append: "js a @ js b = js (a @ b)"
  by (simp add: js_def)

lemma parse_empty_array: "JSON_parse (js ''[]'') = Inr (JArr [])"
  by code_simp

lemma blank_brackets: "\<not> blank (js ''[]'')"
  by (simp add: blank_def js_def isWhiteSpace_def)

lemma parseMessages_empty_array: "parseMessages (Some (js ''[]'')) fallbackMessage = Inr []"
  by (simp add: parseMessages_raw blank_brackets parseArray_def parse_empty_array)

text \<open>
  Claim C1 as stated: the messages are never empty. With the coordinates set and
  \<^verbatim>\<open>messages\<close> being \<^verbatim>\<open>[]\<close>, normalization succeeds and the request has no message.
\<close>

theorem empty_messages_counterexample:
  "normalizeInputs
     \<lparr>getInput = (\<lambda>_. [])(''agent-database'' := js ''D'', ''agent-schema'' := js ''S'',
                              ''agent-name'' := js ''A'', ''messages'' := js ''[]''),
      env = (\<lambda>_. None)\<rparr>
     = Inr \<lparr>coords = \<lparr>database = js ''D'', schema = js ''S'', agentName = js ''A''\<rparr>,
            messages = [], threadId = None, parentMessageId = None, toolChoice = JUndefined\<rparr>"
proof -
  have m: "js_or (Some (js ''[]'')) None = Some (js ''[]'')"
    by (simp add: js_or_def js_def)
  show ?thesis
    by (simp add: normalizeInputs_def resolve_spec database_sources_def schema_sources_def
          agentName_sources_def m parseMessages_empty_array)
       (simp add: js_def blank_def isWhiteSpace_def trim_def js_or_def parseOptionalInteger_def
          parseToolChoice_def)
qed

text \<open>
  A run with the three coordinates and \<^verbatim>\<open>message: hi\<close>.
\<close>

theorem request_invariant_witness:
  "normalizeInputs
     \<lparr>getInput = (\<lambda>_. [])(''agent-database'' := js ''D'', ''agent-schema'' := js ''S'',
                              ''agent-name'' := js ''A'', ''message'' := js ''hi''),
      env = (\<lambda>_. None)\<rparr>
     = Inr \<lparr>coords = \<lparr>database = js ''D'', schema = js ''S'', agentName = js ''A''\<rparr>,
            messages = [JObj [(js ''role'', JStr (js ''user'')),
                              (js ''content'', JArr [JObj [(js ''type'', JStr (js ''text'')),
                                                           (js ''text'', JStr (js ''hi''))]])]],
            threadId = None, parentMessageId = None, toolChoice = JUndefined\<rparr> \<and>
   \<not> uses_raw_messages
     \<lparr>getInput = (\<lambda>_. [])(''agent-database'' := js ''D'', ''agent-schema'' := js ''S'',
                              ''agent-name'' := js ''A'', ''message'' := js ''hi''),
      env = (\<lambda>_. None)\<rparr> \<and>
   js ''D'' \<noteq> [] \<and> js ''S'' \<noteq> [] \<and> js ''A'' \<noteq> []"
proof -
  let ?e = "\<lparr>getInput = (\<lambda>_. [])(''agent-database'' := js ''D'', ''agent-schema'' := js ''S'',
                              ''agent-name'' := js ''A'', ''message'' := js ''hi''),
      env = (\<lambda>_. None)\<rparr>"
  let ?r = "\<lparr>coords = \<lparr>database = js ''D'', schema = js ''S'', agentName = js ''A''\<rparr>,
            messages = [JObj [(js ''role'', JStr (js ''user'')),
                              (js ''content'', JArr [JObj [(js ''type'', JStr (js ''text'')),
                                                           (js ''text'', JStr (js ''hi''))]])]],
            threadId = None, parentMessageId = None, toolChoice = JUndefined\<rparr>"
  have n: "normalizeInputs ?e = Inr ?r"
    by (simp add: normalizeInputs_def resolve_spec database_sources_def schema_sources_def
          agentName_sources_def)
       (simp add: js_def blank_def isWhiteSpace_def trim_def js_or_def or_string_def
          parseOptionalInteger_def parseToolChoice_def parseMessages_def singleMessage_def)
  from request_invariant [OF n] n show ?thesis
    by (simp add: uses_raw_messages_def raw_messages_def js_or_def blank_def split: if_splits)
qed

lemma parseOptionalInteger_blank: "blank raw \<Longrightarrow> parseOptionalInteger (Some raw) = Inr None"
  by (simp add: parseOptionalInteger_def trim_Nil_iff)

lemma parseOptionalInteger_not_blank:
  "\<not> blank raw \<Longrightarrow>
     parseOptionalInteger (Some raw) =
       (if Number (trim raw) = NaN
        then Inl (Error (js ''Expected integer value, received: '' @ raw))
        else Inr (Some (Math_floor (Number (trim raw)))))"
  by (simp add: parseOptionalInteger_def trim_Nil_iff not_blank_not_Nil Let_def)

lemma Number_examples:
  "Number (js ''3.9'') = Finite (8782019273372467 / 2251799813685248)"
  "Number (js ''abc'') = NaN"
  "Number (js ''Infinity'') = PosInfinity"
  "Number (js '' -7 '') = Finite (- 7)"
  by code_simp+

lemma trim_examples:
  "trim (js ''3.9'') = js ''3.9''" "trim (js ''abc'') = js ''abc''"
  "trim (js ''Infinity'') = js ''Infinity''"
  by (simp_all add: trim_def js_def isWhiteSpace_def)

lemma not_blank_examples:
  "\<not> blank (js ''3.9'')" "\<not> blank (js ''abc'')" "\<not> blank (js ''Infinity'')"
  by (simp_all add: blank_def js_def isWhiteSpace_def)

lemma floor_39: "\<lfloor>8782019273372467 / 2251799813685248 :: rat\<rfloor> = 3"
  by code_simp

text \<open>
  What \<^verbatim>\<open>parseOptionalInteger\<close> returns, by the kind of its input: \<^verbatim>\<open>undefined\<close> for an
  absent or blank one; an error exactly when the trimmed string reads as not-a-number;
  for a finite number its floor, the greatest integer not above it.
\<close>

lemma parseOptionalInteger_cases:
  "parseOptionalInteger None = Inr None \<and>
   (blank raw \<longrightarrow> parseOptionalInteger (Some raw) = Inr None) \<and>
   (\<not> blank raw \<and> Number (trim raw) = NaN \<longrightarrow>
      parseOptionalInteger (Some raw) =
        Inl (Error (js ''Expected integer value, received: '' @ raw))) \<and>
   (\<not> blank raw \<and> Number (trim raw) = Finite q \<longrightarrow>
      parseOptionalInteger (Some raw) = Inr (Some (Finite (of_int \<lfloor>q\<rfloor>))) \<and>
      is_integer (Finite (of_int \<lfloor>q\<rfloor>)) \<and>
      of_int \<lfloor>q\<rfloor> \<le> q \<and> q < of_int \<lfloor>q\<rfloor> + 1) \<and>
   ((\<exists>err. parseOptionalInteger (Some raw) = Inl err) \<longleftrightarrow>
      \<not> blank raw \<and> Number (trim raw) = NaN) \<and>
   parseOptionalInteger (Some (js ''3.9'')) = Inr (Some (Finite 3)) \<and>
   parseOptionalInteger (Some (js ''abc'')) =
     Inl (Error (js ''Expected integer value, received: abc''))"
proof (intro conjI impI)
  show "parseOptionalInteger None = Inr None"
    by (simp add: parseOptionalInteger_def)
  show "parseOptionalInteger (Some (js ''3.9'')) = Inr (Some (Finite 3))"
    by (simp add: parseOptionalInteger_not_blank not_blank_examples trim_examples
          Number_examples floor_39)
  show "parseOptionalInteger (Some (js ''abc'')) =
     Inl (Error (js ''Expected integer value, received: abc''))"
    by (simp add: parseOptionalInteger_not_blank not_blank_examples trim_examples
          Number_examples) (simp add: js_def)
  show "(\<exists>err. parseOptionalInteger (Some raw) = Inl err) \<longleftrightarrow>
      \<not> blank raw \<and> Number (trim raw) = NaN"
    by (cases "blank raw")
       (auto simp: parseOptionalInteger_blank parseOptionalInteger_not_blank)
next
  assume "blank raw"
  then show "parseOptionalInteger (Some raw) = Inr None"
    by (rule parseOptionalInteger_blank)
next
  assume "\<not> blank raw \<and> Number (trim raw) = NaN"
  then show "parseOptionalInteger (Some raw) =
        Inl (Error (js ''Expected integer value, received: '' @ raw))"
    by (simp add: parseOptionalInteger_not_blank)
next
  assume a: "\<not> blank raw \<and> Number (trim raw) = Finite q"
  then show "parseOptionalInteger (Some raw) = Inr (Some (Finite (of_int \<lfloor>q\<rfloor>)))"
    by (simp add: parseOptionalInteger_not_blank)
  show "is_integer (Finite (of_int \<lfloor>q\<rfloor>))"
    by (simp add: is_integer_def)
  show "of_int \<lfloor>q\<rfloor> \<le> q" by simp
  show "q < of_int \<lfloor>q\<rfloor> + 1" by linarith
qed

text \<open>
  Claim C7. Optional-integer resolution returns \<^verbatim>\<open>undefined\<close> for an absent or blank
  input and otherwise fails when the trimmed string is not a number, or returns an
  integer, the floor of the number read. The source does not at the inputs \<^verbatim>\<open>Infinity\<close>
  and \<^verbatim>\<open>-Infinity\<close>: they read as the infinities, which are not not-a-number, and
  \<^verbatim>\<open>Math.floor\<close> leaves an infinity as it is. So \<^verbatim>\<open>parseOptionalInteger\<close>, whose error
  message is \<^verbatim>\<open>Expected integer value\<close>, returns a value that is no integer, and a run
  with \<^verbatim>\<open>thread-id: Infinity\<close> builds a request whose thread id is infinite.
\<close>

theorem optional_integer_infinity:
  "parseOptionalInteger (Some (js ''Infinity'')) = Inr (Some PosInfinity) \<and>
   \<not> is_integer PosInfinity \<and>
   parseOptionalInteger (Some (js ''-Infinity'')) = Inr (Some NegInfinity) \<and>
   \<not> is_integer NegInfinity \<and>
   normalizeInputs
     \<lparr>getInput = (\<lambda>_. [])(''agent-database'' := js ''D'', ''agent-schema'' := js ''S'',
                              ''agent-name'' := js ''A'', ''message'' := js ''hi'',
                              ''thread-id'' := js ''Infinity''),
      env = (\<lambda>_. None)\<rparr>
     = Inr \<lparr>coords = \<lparr>database = js ''D'', schema = js ''S'', agentName = js ''A''\<rparr>,
            messages = [JObj [(js ''role'', JStr (js ''user'')),
                              (js ''content'', JArr [JObj [(js ''type'', JStr (js ''text'')),
                                                           (js ''text'', JStr (js ''hi''))]])]],
            threadId = Some PosInfinity, parentMessageId = None, toolChoice = JUndefined\<rparr>"
proof -
  have p: "parseOptionalInteger (Some (js ''Infinity'')) = Inr (Some PosInfinity)"
    by (simp add: parseOptionalInteger_not_blank not_blank_examples trim_examples
          Number_examples)
  have b: "\<not> blank (js ''-Infinity'')" "trim (js ''-Infinity'') = js ''-Infinity''"
    by (simp_all add: blank_def trim_def js_def isWhiteSpace_def)
  have n: "Number (js ''-Infinity'') = NegInfinity"
    by code_simp
  have m: "parseOptionalInteger (Some (js ''-Infinity'')) = Inr (Some NegInfinity)"
    by (simp add: parseOptionalInteger_not_blank b n)
  have t: "Number [73, 110, 102, 105, 110, 105, 116, 121] = PosInfinity"
    using Number_examples(3) by (simp add: js_def)
  have r: "normalizeInputs
     \<lparr>getInput = (\<lambda>_. [])(''agent-database'' := js ''D'', ''agent-schema'' := js ''S'',
                              ''agent-name'' := js ''A'', ''message'' := js ''hi'',
                              ''thread-id'' := js ''Infinity''),
      env = (\<lambda>_. None)\<rparr>
     = Inr \<lparr>coords = \<lparr>database = js ''D'', schema = js ''S'', agentName = js ''A''\<rparr>,
            messages = [JObj [(js ''role'', JStr (js ''user'')),
                              (js ''content'', JArr [JObj [(js ''type'', JStr (js ''text'')),
                                                           (js ''text'', JStr (js ''hi''))]])]],
            threadId = Some PosInfinity, parentMessageId = None, toolChoice = JUndefined\<rparr>"
    by (simp add: normalizeInputs_def resolve_spec database_sources_def schema_sources_def
          agentName_sources_def)
       (simp add: js_def blank_def isWhiteSpace_def trim_def js_or_def or_string_def
          parseOptionalInteger_def parseToolChoice_def parseMessages_def singleMessage_def t)
  from p m r show ?thesis
    by (simp add: is_integer_def)
qed

section \<open>Properties of the result persister\<close>

lemma map_of_distinct:
  "distinct (map fst entries) \<Longrightarrow> (n, x) \<in> set entries \<Longrightarrow> map_of entries n = Some x"
  by simp

text \<open>
  In a directory whose entries have distinct names, the sweep of one entry removes it when
  it is \<open>swept_away\<close> and leaves the directory as it is otherwise, also when
  \<^verbatim>\<open>statSync\<close> or \<^verbatim>\<open>unlinkSync\<close> fails on it.
\<close>

lemma sweepEntry_filter:
  assumes "distinct (map fst entries)"
  shows "sweepEntry now maxAgeMs entries entry =
           filter (\<lambda>(n, x). \<not> (n = entry \<and> swept_away now maxAgeMs x)) entries"
proof (cases "map_of entries entry")
  case None
  then have "\<forall>(n, x) \<in> set entries. n \<noteq> entry"
    by (auto simp: map_of_eq_None_iff image_iff)
  then have "filter (\<lambda>(n, x). \<not> (n = entry \<and> swept_away now maxAgeMs x)) entries = entries"
    by (auto simp: filter_id_conv)
  with None show ?thesis
    by (simp add: sweepEntry_def sweepTry_def statSync_def)
next
  case (Some y)
  have same: "x = y" if "(entry, x) \<in> set entries" for x
    using map_of_distinct [OF assms that] Some by simp
  show ?thesis
  proof (cases "swept_away now maxAgeMs y")
    case True
    then obtain mtimeMs contents where y: "y = File mtimeMs contents True"
      and old: "of_int now - mtimeMs > of_int maxAgeMs"
      by (auto simp: swept_away_def split: node.splits)
    have "filter (\<lambda>(n, x). \<not> (n = entry \<and> swept_away now maxAgeMs x)) entries
            = filter (\<lambda>(n, x). n \<noteq> entry) entries"
      using same True by (intro filter_cong) auto
    with Some y old show ?thesis
      by (simp add: sweepEntry_def sweepTry_def statSync_def unlinkSync_def)
  next
    case False
    have "filter (\<lambda>(n, x). \<not> (n = entry \<and> swept_away now maxAgeMs x)) entries = entries"
      using same False by (auto simp: filter_id_conv)
    with Some False show ?thesis
      by (auto simp: sweepEntry_def sweepTry_def statSync_def unlinkSync_def swept_away_def
            split: node.splits)
  qed
qed

lemma sweep_loop_filter:
  "distinct (map fst entries) \<Longrightarrow>
     foldl (sweepEntry now maxAgeMs) entries names =
       filter (\<lambda>(n, x). \<not> (n \<in> set names \<and> swept_away now maxAgeMs x)) entries"
proof (induction names arbitrary: entries)
  case Nil
  then show ?case by simp
next
  case (Cons name names)
  let ?one = "filter (\<lambda>(n, x). \<not> (n = name \<and> swept_away now maxAgeMs x)) entries"
  have d: "distinct (map fst ?one)"
    using Cons.prems by (rule distinct_map_filter)
  have "foldl (sweepEntry now maxAgeMs) entries (name # names)
          = foldl (sweepEntry now maxAgeMs) ?one names"
    by (simp add: sweepEntry_filter [OF Cons.prems])
  also have "\<dots> = filter (\<lambda>(n, x). \<not> (n \<in> set names \<and> swept_away now maxAgeMs x)) ?one"
    by (rule Cons.IH [OF d])
  also have "\<dots> = filter (\<lambda>(n, x). \<not> (n \<in> set (name # names) \<and> swept_away now maxAgeMs x)) entries"
    by (auto intro: filter_cong)
  finally show ?case .
qed

lemma sweep_all_filter:
  assumes "distinct (map fst entries)"
  shows "foldl (sweepEntry now maxAgeMs) entries (map fst entries) =
           filter (\<lambda>(n, x). \<not> swept_away now maxAgeMs x) entries"
proof -
  have "filter (\<lambda>(n, x). \<not> (n \<in> set (map fst entries) \<and> swept_away now maxAgeMs x)) entries
          = filter (\<lambda>(n, x). \<not> swept_away now maxAgeMs x) entries"
    by (intro filter_cong) (auto simp: image_iff)
  with sweep_loop_filter [OF assms, of now maxAgeMs "map fst entries"] show ?thesis by simp
qed

lemma serialize_defined: "v \<noteq> JUndefined \<Longrightarrow> \<exists>text. serialize indent v = Some text"
  by (cases v) simp_all

lemma stringify_payload: "\<exists>text. JSON_stringify (orEmptyObject payload) = Some text"
  unfolding JSON_stringify_def
  by (rule serialize_defined) (cases payload; simp)

text \<open>
  Claim C4. On a persist call into a directory (its entries under distinct names), the
  sweep that precedes the write leaves exactly the entries that are not \<open>swept_away\<close>:
  it removes the regular files whose age, the reading of \<^verbatim>\<open>Date.now()\<close> minus the
  modification time, exceeds 24 hours (86400000 ms) and whose unlinking succeeds; it keeps
  the files that are not older than that, the directories, the entries \<^verbatim>\<open>statSync\<close>
  fails on and the files \<^verbatim>\<open>unlinkSync\<close> fails on. No entry makes the sweep fail, and
  the persist call is the write into the swept directory.
\<close>

theorem sweep_before_write:
  "fs (path_resolve (cwd h) dir) = Dir entries \<Longrightarrow> distinct (map fst entries) \<Longrightarrow>
   cleanupPersistedFiles h fs (path_resolve (cwd h) dir) MAX_PERSIST_FILE_AGE_MS =
     Inr (fs(path_resolve (cwd h) dir :=
               Dir (filter (\<lambda>(name, x). \<not> swept_away (Date_now h) MAX_PERSIST_FILE_AGE_MS x)
                      entries))) \<and>
   (\<exists>text. JSON_stringify (orEmptyObject payload) = Some text \<and>
      persistResponse h fs payload dir =
        (case writeFileSync
                (fs(path_resolve (cwd h) dir :=
                      Dir (filter (\<lambda>(name, x).
                             \<not> swept_away (Date_now h) MAX_PERSIST_FILE_AGE_MS x) entries)))
                (path_resolve (cwd h) dir) (fileName (new_Date h)) text
                (of_int (time (new_Date h))) of
           Inl err \<Rightarrow> Inl err
         | Inr fs' \<Rightarrow> Inr (path_join (path_resolve (cwd h) dir) (fileName (new_Date h)), fs'))) \<and>
   (swept_away now MAX_PERSIST_FILE_AGE_MS (File mtimeMs contents removable) \<longleftrightarrow>
      of_int now - mtimeMs > 86400000 \<and> removable) \<and>
   \<not> swept_away now MAX_PERSIST_FILE_AGE_MS Directory \<and>
   \<not> swept_away now MAX_PERSIST_FILE_AGE_MS Unreadable"
proof -
  assume dir: "fs (path_resolve (cwd h) dir) = Dir entries" and d: "distinct (map fst entries)"
  let ?d = "path_resolve (cwd h) dir"
  let ?kept = "filter (\<lambda>(name, x). \<not> swept_away (Date_now h) MAX_PERSIST_FILE_AGE_MS x) entries"
  have sweep: "cleanupPersistedFiles h fs ?d MAX_PERSIST_FILE_AGE_MS = Inr (fs(?d := Dir ?kept))"
    by (simp add: cleanupPersistedFiles_def dir sweep_all_filter [OF d])
  obtain body where body: "JSON_stringify (orEmptyObject payload) = Some body"
    using stringify_payload by blast
  have "persistResponse h fs payload dir =
        (case writeFileSync (fs(?d := Dir ?kept)) ?d (fileName (new_Date h)) body
                (of_int (time (new_Date h))) of
           Inl err \<Rightarrow> Inl err
         | Inr fs' \<Rightarrow> Inr (path_join ?d (fileName (new_Date h)), fs'))"
    by (simp add: persistResponse_def Let_def mkdirSync_def dir sweep body)
  with body sweep show ?thesis
    by (simp add: swept_away_def MAX_PERSIST_FILE_AGE_MS_def)
qed

lemma witness_file_name:
  "fileName \<lparr>fullYear = 2024, month = 0, date = 2, hours = 3, minutes = 4, seconds = 5,
              time = 100000007\<rparr> = js ''agent-result-20240102-030405-100000007.json''"
  by (simp add: fileName_def datestamp_def padStart2_def String_int_def String_nat.simps js_def)

lemma witness_paths:
  "path_resolve (js ''/w'') (js ''out'') = js ''/w/out''"
  "path_join (js ''/w/out'') (js ''agent-result-20240102-030405-100000007.json'')
     = js ''/w/out/agent-result-20240102-030405-100000007.json''"
  by code_simp+

lemma stringify_empty: "JSON_stringify (JObj []) = Some (js ''{}'')"
  by (simp add: JSON_stringify_def bracket_def js_def)

text \<open>
  A directory with an old file, a new one, an old one that cannot be unlinked, a
  directory, an entry that cannot be read and a file of exactly 24 hours: the old file
  alone is gone after the call, and the result file is there.
\<close>

theorem sweep_before_write_witness:
  "persistResponse
     \<lparr>cwd = js ''/w'', Date_now = 100000000,
      new_Date = \<lparr>fullYear = 2024, month = 0, date = 2, hours = 3, minutes = 4, seconds = 5,
                  time = 100000007\<rparr>\<rparr>
     ((\<lambda>_. Missing)(js ''/w/out'' :=
        Dir [(js ''old'', File 1000 [] True), (js ''new'', File 99000000 [] True),
             (js ''locked'', File 1000 [] False), (js ''sub'', Directory),
             (js ''gone'', Unreadable), (js ''edge'', File 13600000 [] True)]))
     JNull (js ''out'')
   = Inr (js ''/w/out/agent-result-20240102-030405-100000007.json'',
          (\<lambda>_. Missing)(js ''/w/out'' :=
            Dir [(js ''new'', File 99000000 [] True), (js ''locked'', File 1000 [] False),
                 (js ''sub'', Directory), (js ''gone'', Unreadable),
                 (js ''edge'', File 13600000 [] True),
                 (js ''agent-result-20240102-030405-100000007.json'',
                  File 100000007 (js ''{}'') True)]))"
proof -
  let ?h = "\<lparr>cwd = js ''/w'', Date_now = 100000000,
      new_Date = \<lparr>fullYear = 2024, month = 0, date = 2, hours = 3, minutes = 4, seconds = 5,
                  time = 100000007\<rparr>\<rparr>"
  let ?entries = "[(js ''old'', File 1000 [] True), (js ''new'', File 99000000 [] True),
             (js ''locked'', File 1000 [] False), (js ''sub'', Directory),
             (js ''gone'', Unreadable), (js ''edge'', File 13600000 [] True)]"
  let ?kept = "[(js ''new'', File 99000000 [] True), (js ''locked'', File 1000 [] False),
      (js ''sub'', Directory), (js ''gone'', Unreadable), (js ''edge'', File 13600000 [] True)]"
  let ?fs = "(\<lambda>_. Missing)(js ''/w/out'' := Dir ?entries)"
  let ?name = "js ''agent-result-20240102-030405-100000007.json''"
  have r: "path_resolve (cwd ?h) (js ''out'') = js ''/w/out''"
    by (simp add: witness_paths)
  have dir: "?fs (path_resolve (cwd ?h) (js ''out'')) = Dir ?entries"
    by (simp only: r fun_upd_same)
  have d: "distinct (map fst ?entries)"
    by (simp add: js_def)
  have kept: "filter (\<lambda>(name, x). \<not> swept_away (Date_now ?h) MAX_PERSIST_FILE_AGE_MS x) ?entries
                = ?kept"
    by (simp add: swept_away_def MAX_PERSIST_FILE_AGE_MS_def)
  have fresh: "map_of ?kept ?name = None"
    by (simp add: js_def)
  have w: "writeFileSync (?fs(js ''/w/out'' := Dir ?kept)) (js ''/w/out'') ?name (js ''{}'')
             100000007
           = Inr ((\<lambda>_. Missing)(js ''/w/out'' :=
                    Dir (?kept @ [(?name, File 100000007 (js ''{}'') True)])))"
    unfolding writeFileSync_def by (simp only: fun_upd_same place.case fresh option.case fun_upd_upd)
  from sweep_before_write [of ?fs ?h "js ''out''" ?entries JNull, OF dir d,
      THEN conjunct2, THEN conjunct1]
  obtain body where body: "JSON_stringify (orEmptyObject JNull) = Some body"
    and p: "persistResponse ?h ?fs JNull (js ''out'') =
        (case writeFileSync
                (?fs(path_resolve (cwd ?h) (js ''out'') :=
                      Dir (filter (\<lambda>(name, x).
                             \<not> swept_away (Date_now ?h) MAX_PERSIST_FILE_AGE_MS x) ?entries)))
                (path_resolve (cwd ?h) (js ''out'')) (fileName (new_Date ?h)) body
                (of_int (time (new_Date ?h))) of
           Inl err \<Rightarrow> Inl err
         | Inr fs' \<Rightarrow> Inr (path_join (path_resolve (cwd ?h) (js ''out'')) (fileName (new_Date ?h)), fs'))"
    by blast
  from body have b: "body = js ''{}''"
    by (simp add: stringify_empty)
  have nd: "fileName (new_Date ?h) = ?name" "of_int (time (new_Date ?h)) = (100000007 :: rat)"
    by (simp_all add: witness_file_name)
  show ?thesis
    unfolding p r kept b nd w witness_paths by simp
qed

lemma digit_char: "n < 10 \<Longrightarrow> isDigit (word_of_nat (0x30 + n))"
proof -
  assume "n < 10"
  then have "n \<in> {0, 1, 2, 3, 4, 5, 6, 7, 8, 9}" by auto
  then show ?thesis by (elim insertE emptyE) (simp_all add: isDigit_def)
qed

lemma digit_char': "n < 10 \<Longrightarrow> isDigit (0x30 + word_of_nat n)"
  using digit_char [of n] by simp

lemma String_nat_digits: "list_all isDigit (String_nat n)"
proof (induction n rule: String_nat.induct)
  case (1 n)
  show ?case
  proof (cases "n < 10")
    case True
    then show ?thesis by (subst String_nat.simps) (simp add: digit_char')
  next
    case False
    with 1 show ?thesis by (subst String_nat.simps) (simp add: digit_char')
  qed
qed

lemma String_nat_length:
  "length (String_nat n) = (if n < 10 then 1 else Suc (length (String_nat (n div 10))))"
  by (subst String_nat.simps) simp

lemma length_two_digits: "n < 100 \<Longrightarrow> length (padStart2 (String_nat n)) = 2"
proof -
  assume n: "n < 100"
  then have "n div 10 < 10" by simp
  then have "length (String_nat n) = (if n < 10 then 1 else 2)"
    by (simp add: String_nat_length [of n] String_nat_length [of "n div 10"])
  then show ?thesis by (simp add: padStart2_def)
qed

lemma length_four_digits: "1000 \<le> n \<Longrightarrow> n \<le> 9999 \<Longrightarrow> length (String_nat n) = 4"
proof -
  assume n: "1000 \<le> n" "n \<le> 9999"
  then have a: "\<not> n < 10" "\<not> n div 10 < 10" "\<not> n div 10 div 10 < 10" "n div 10 div 10 div 10 < 10"
    by simp_all
  show ?thesis
    using a
    by (simp add: String_nat_length [of n] String_nat_length [of "n div 10"]
          String_nat_length [of "n div 10 div 10"] String_nat_length [of "n div 10 div 10 div 10"])
qed

lemma padStart2_digits: "list_all isDigit (padStart2 (String_nat n))"
  using String_nat_digits [of n] by (auto simp: padStart2_def list_all_iff isDigit_def)

lemma digitIn_digit: "d < 10 \<Longrightarrow> digitIn 10 (0x30 + word_of_nat d) = Some d"
proof -
  assume "d < 10"
  then have "d \<in> {0, 1, 2, 3, 4, 5, 6, 7, 8, 9}" by auto
  then show ?thesis by (elim insertE emptyE) (simp_all add: digitIn_def)
qed

lemma digitsValue_snoc:
  "digitsValue b (ds @ [c]) =
     digitsValue b ds * int b + (case digitIn b c of None \<Rightarrow> 0 | Some d \<Rightarrow> int d)"
  by (simp add: digitsValue_def)

text \<open>Reading the digits that \<^verbatim>\<open>String\<close> writes gives the number back.\<close>

lemma digitsValue_String_nat: "digitsValue 10 (String_nat n) = int n"
proof (induction n rule: String_nat.induct)
  case (1 n)
  show ?case
  proof (cases "n < 10")
    case True
    then show ?thesis
      by (subst String_nat.simps) (simp add: digitsValue_def digitIn_digit)
  next
    case False
    have "n mod 10 < 10" by simp
    then have d: "digitIn 10 (0x30 + word_of_nat (n mod 10)) = Some (n mod 10)"
      by (rule digitIn_digit)
    have "int (n div 10) * 10 + int (n mod 10) = int n"
      by (simp add: zdiv_int zmod_int)
    with False "1.IH" d show ?thesis
      by (subst String_nat.simps) (simp add: digitsValue_snoc)
  qed
qed

lemma digitsValue_zeros: "digitsValue 10 (replicate k 0x30 @ s) = digitsValue 10 s"
proof -
  have "foldl (\<lambda>acc c. acc * int 10 + (case digitIn 10 c of None \<Rightarrow> 0 | Some d \<Rightarrow> int d)) 0
          (replicate k 0x30) = 0"
    by (induction k) (simp_all add: digitIn_def)
  then show ?thesis by (simp add: digitsValue_def)
qed

lemma digitsValue_padStart2: "digitsValue 10 (padStart2 (String_nat n)) = int n"
  by (simp add: padStart2_def digitsValue_zeros digitsValue_String_nat)

text \<open>
  The name that \<^verbatim>\<open>persistResponse\<close> builds is the name of the specification, when the
  year has four digits.
\<close>

lemma fileName_spec:
  assumes "plain_date now"
  shows "spec_file_name now (fileName now)"
proof -
  let ?y = "String_nat (fullYear now)"
  let ?mo = "padStart2 (String_nat (month now + 1))"
  let ?d = "padStart2 (String_nat (date now))"
  let ?h = "padStart2 (String_nat (hours now))"
  let ?mi = "padStart2 (String_nat (minutes now))"
  let ?s = "padStart2 (String_nat (seconds now))"
  let ?ms = "String_nat (nat (time now))"
  let ?p = "js ''agent-result-''"
  from assms have l: "length ?y = 4" "length ?mo = 2" "length ?d = 2" "length ?h = 2"
    "length ?mi = 2" "length ?s = 2"
    by (simp_all add: plain_date_def length_four_digits length_two_digits)
  have lp: "length ?p = 13" "length (js ''.json'') = 5" "js ''-'' = [0x2D]"
    by (simp_all add: js_def)
  have "length ?ms \<noteq> 0"
    by (subst String_nat_length) simp
  then have ms: "?ms \<noteq> []" "list_all isDigit ?ms"
    by (simp_all add: String_nat_digits)
  from assms have t: "String_int (time now) = ?ms" "digitsValue 10 ?ms = time now"
    by (simp_all add: String_int_def plain_date_def digitsValue_String_nat)
  have name: "fileName now =
      ?p @ (?y @ ?mo @ ?d) @ [0x2D] @ (?h @ ?mi @ ?s) @ [0x2D] @ ?ms @ js ''.json''"
    by (simp add: fileName_def datestamp_def t lp)
  have ymd: "take 8 (drop 13 (fileName now)) = ?y @ ?mo @ ?d"
    unfolding name using l lp by simp
  have hms: "take 6 (drop 22 (fileName now)) = ?h @ ?mi @ ?s"
    unfolding name using l lp by simp
  have len: "length (fileName now) = 34 + length ?ms"
    unfolding name using l lp by simp
  have millis: "take (length (fileName now) - 34) (drop 29 (fileName now)) = ?ms"
    unfolding len unfolding name using l lp by simp
  have parts:
    "take 4 (?y @ ?mo @ ?d) = ?y" "take 2 (drop 4 (?y @ ?mo @ ?d)) = ?mo"
    "drop 6 (?y @ ?mo @ ?d) = ?d"
    "take 2 (?h @ ?mi @ ?s) = ?h" "take 2 (drop 2 (?h @ ?mi @ ?s)) = ?mi"
    "drop 4 (?h @ ?mi @ ?s) = ?s"
    using l by simp_all
  show ?thesis
    unfolding spec_file_name_def Let_def ymd hms millis parts
    using l ms t(2)
    by (simp add: name lp String_nat_digits padStart2_digits digitsValue_String_nat
          digitsValue_padStart2)
qed

lemma stringify_a1: "JSON_stringify (JObj [(js ''a'', JNum (Finite 1))]) = Some pretty_a1"
  by code_simp

lemma parse_a1: "JSON_parse pretty_a1 = Inr (JObj [(js ''a'', JNum (Finite 1))])"
  by code_simp

lemma parse_empty_object: "JSON_parse (js ''{}'') = Inr (JObj [])"
  by code_simp

lemma persist_fresh:
  assumes "fs (path_resolve (cwd h) dir) = Dir [] \<or> fs (path_resolve (cwd h) dir) = Missing"
    and "JSON_stringify (orEmptyObject payload) = Some body"
  shows "persistResponse h fs payload dir =
     Inr (path_join (path_resolve (cwd h) dir) (fileName (new_Date h)),
          fs(path_resolve (cwd h) dir :=
               Dir [(fileName (new_Date h), File (of_int (time (new_Date h))) body True)]))"
  using assms
  by (auto simp: persistResponse_def Let_def mkdirSync_def cleanupPersistedFiles_def
        writeFileSync_def)

text \<open>
  Claim C5. Persisting \<^verbatim>\<open>{"a":1}\<close> into a directory that is empty, or not there yet,
  leaves exactly one file in it. Its contents are the two-space rendering of the payload,
  which \<^verbatim>\<open>JSON.parse\<close> reads back as \<^verbatim>\<open>{"a":1}\<close>; a null or absent payload is written
  as \<^verbatim>\<open>{}\<close>. For a date with a year of four digits its name is
  \<^verbatim>\<open>agent-result-<YYYYMMDD>-<HHMMSS>-<epochMillis>.json\<close>, the digits being those of the
  local year, month (from 1), day, hours, minutes and seconds and of the epoch
  milliseconds of that date.
\<close>

theorem persist_fresh_directory:
  "fs (path_resolve (cwd h) dir) = Dir [] \<or> fs (path_resolve (cwd h) dir) = Missing \<Longrightarrow>
   persistResponse h fs (JObj [(js ''a'', JNum (Finite 1))]) dir =
     Inr (path_join (path_resolve (cwd h) dir) (fileName (new_Date h)),
          fs(path_resolve (cwd h) dir :=
               Dir [(fileName (new_Date h), File (of_int (time (new_Date h))) pretty_a1 True)])) \<and>
   JSON_parse pretty_a1 = Inr (JObj [(js ''a'', JNum (Finite 1))]) \<and>
   persistResponse h fs JNull dir =
     Inr (path_join (path_resolve (cwd h) dir) (fileName (new_Date h)),
          fs(path_resolve (cwd h) dir :=
               Dir [(fileName (new_Date h), File (of_int (time (new_Date h))) (js ''{}'') True)])) \<and>
   persistResponse h fs JUndefined dir = persistResponse h fs JNull dir \<and>
   JSON_parse (js ''{}'') = Inr (JObj []) \<and>
   (plain_date (new_Date h) \<longrightarrow> spec_file_name (new_Date h) (fileName (new_Date h)))"
proof -
  assume fresh: "fs (path_resolve (cwd h) dir) = Dir [] \<or> fs (path_resolve (cwd h) dir) = Missing"
  have e: "JSON_stringify (orEmptyObject JNull) = Some (js ''{}'')"
    "JSON_stringify (orEmptyObject JUndefined) = Some (js ''{}'')"
    by (simp_all add: stringify_empty)
  have a: "JSON_stringify (orEmptyObject (JObj [(js ''a'', JNum (Finite 1))])) = Some pretty_a1"
    by (simp add: stringify_a1)
  show ?thesis
    using persist_fresh [of fs h dir, OF fresh a] persist_fresh [of fs h dir, OF fresh e(1)]
      persist_fresh [of fs h dir, OF fresh e(2)] fileName_spec [of "new_Date h"]
    by (simp add: parse_a1 parse_empty_object)
qed

text \<open>
  A run on 2 January 2024, 03:04:05 local time, into a directory that does not exist.
\<close>

theorem persist_fresh_directory_witness:
  "persistResponse
     \<lparr>cwd = js ''/w'', Date_now = 100000000,
      new_Date = \<lparr>fullYear = 2024, month = 0, date = 2, hours = 3, minutes = 4, seconds = 5,
                  time = 100000007\<rparr>\<rparr>
     (\<lambda>_. Missing) (JObj [(js ''a'', JNum (Finite 1))]) (js ''out'')
   = Inr (js ''/w/out/agent-result-20240102-030405-100000007.json'',
          (\<lambda>_. Missing)(js ''/w/out'' :=
            Dir [(js ''agent-result-20240102-030405-100000007.json'',
                  File 100000007 pretty_a1 True)])) \<and>
   plain_date \<lparr>fullYear = 2024, month = 0, date = 2, hours = 3, minutes = 4, seconds = 5,
               time = 100000007\<rparr> \<and>
   spec_file_name \<lparr>fullYear = 2024, month = 0, date = 2, hours = 3, minutes = 4, seconds = 5,
                   time = 100000007\<rparr>
     (js ''agent-result-20240102-030405-100000007.json'')"
proof -
  let ?h = "\<lparr>cwd = js ''/w'', Date_now = 100000000,
      new_Date = \<lparr>fullYear = 2024, month = 0, date = 2, hours = 3, minutes = 4, seconds = 5,
                  time = 100000007\<rparr>\<rparr>"
  have r: "path_resolve (cwd ?h) (js ''out'') = js ''/w/out''"
    by (simp add: witness_paths)
  have nd: "fileName (new_Date ?h) = js ''agent-result-20240102-030405-100000007.json''"
    "of_int (time (new_Date ?h)) = (100000007 :: rat)"
    by (simp_all add: witness_file_name)
  have pd: "plain_date (new_Date ?h)"
    by (simp add: plain_date_def)
  from persist_fresh_directory [of "\<lambda>_. Missing" ?h "js ''out''"] pd
  show ?thesis
    unfolding r nd witness_paths by (simp add: witness_file_name)
qed

end
